theory Spec2Isabelle
  imports Main "HOL-Library.Sublist" "HOL-Library.AList" "HOL-Library.Word"
begin

section \<open>JavaScript values\<close>

text \<open>
  The client is written against \<open>any\<close>: parsed JSON payloads, rejected promises and the
  caught \<open>error\<close> are all plain JavaScript values. The model distinguishes the values that
  JSON data and failures are made of: \<open>undefined\<close>, \<open>null\<close>, booleans, numbers, strings,
  arrays, data objects, and Error objects (with their \<open>name\<close> and \<open>message\<close>).

  \<^item> A number is a safe integer (a sign and a magnitude below \<open>2^53\<close>, so that
    \<open>String(n)\<close> is its decimal numeral, and \<open>-0\<close> is the negative of magnitude 0),
    \<open>NaN\<close>, or an infinity. The other numbers (fractions, and integers from \<open>2^53\<close>
    on, which \<open>String\<close> prints by the shortest-digits rule) are outside the model.
  \<^item> A string is a list of bytes: the UTF-8 form of the JavaScript string (for a
    string given to \<open>URLSearchParams\<close>, of its conversion to a scalar-value string).
    An identifier, which \<open>encodeURIComponent\<close> reads by code units and may refuse,
    is a list of UTF-16 code units.
  \<^item> An object is the list of its own enumerable properties in enumeration order, with
    distinct keys and only data as values; its prototype is \<open>Object.prototype\<close>.
\<close>

datatype jsnum = Pos "53 word" | Neg "53 word" | NaN | Infinity | NegInfinity

datatype jsval =
    JUndefined
  | JNull
  | JBool bool
  | JNum jsnum
  | JStr string
  | JArr "jsval list"
  | JObj "(string \<times> jsval) list"
  | JError string string

text \<open>The numbers that are falsy: \<open>0\<close>, \<open>-0\<close> and \<open>NaN\<close>.\<close>

fun number_truthy :: "jsnum \<Rightarrow> bool" where
  "number_truthy (Pos w) = (w \<noteq> 0)"
| "number_truthy (Neg w) = (w \<noteq> 0)"
| "number_truthy NaN = False"
| "number_truthy Infinity = True"
| "number_truthy NegInfinity = True"

text \<open>ToBoolean: what \<open>a || b\<close> and \<open>c ? a : b\<close> test.\<close>

fun truthy :: "jsval \<Rightarrow> bool" where
  "truthy JUndefined = False"
| "truthy JNull = False"
| "truthy (JBool b) = b"
| "truthy (JNum n) = number_truthy n"
| "truthy (JStr s) = (s \<noteq> [])"
| "truthy (JArr xs) = True"
| "truthy (JObj kvs) = True"
| "truthy (JError n m) = True"

definition js_or :: "jsval \<Rightarrow> jsval \<Rightarrow> jsval" where
  "js_or a b = (if truthy a then a else b)"

definition apostrophe :: string where
  "apostrophe = [CHR 0x27]"

definition TypeError :: "string \<Rightarrow> jsval" where
  "TypeError msg = JError ''TypeError'' msg"

text \<open>
  Property read \<open>v.k\<close>, for a key \<open>k\<close> that no built-in prototype defines (the client
  reads \<open>data\<close>, \<open>name\<close> and \<open>message\<close>). Reading a property of \<open>null\<close> or
  \<open>undefined\<close> throws a TypeError; a primitive or an array has no such property.
\<close>

fun get_prop :: "jsval \<Rightarrow> string \<Rightarrow> jsval + jsval" where
  "get_prop JUndefined k =
     Inl (TypeError (''Cannot read properties of undefined (reading '' @ apostrophe @ k @ apostrophe @ '')''))"
| "get_prop JNull k =
     Inl (TypeError (''Cannot read properties of null (reading '' @ apostrophe @ k @ apostrophe @ '')''))"
| "get_prop (JObj kvs) k = Inr (case map_of kvs k of None \<Rightarrow> JUndefined | Some v \<Rightarrow> v)"
| "get_prop (JError n m) k =
     Inr (if k = ''message'' then JStr m else if k = ''name'' then JStr n else JUndefined)"
| "get_prop v k = Inr JUndefined"

subsection \<open>Numbers and strings\<close>

definition digit_char :: "nat \<Rightarrow> char" where
  "digit_char d = ''0123456789'' ! d"

fun string_of_nat :: "nat \<Rightarrow> string" where
  "string_of_nat n =
     (if n < 10 then [digit_char n] else string_of_nat (n div 10) @ [digit_char (n mod 10)])"

declare string_of_nat.simps [simp del]

text \<open>Reading a decimal numeral back: the number that a string of digits denotes.\<close>

definition nat_of_digits :: "string \<Rightarrow> nat" where
  "nat_of_digits s = foldl (\<lambda>a d. 10 * a + (of_char d - 48)) 0 s"

text \<open>\<open>String(n)\<close> for a number \<open>n\<close>; \<open>-0\<close> prints as \<open>0\<close>.\<close>

fun number_to_string :: "jsnum \<Rightarrow> string" where
  "number_to_string (Pos w) = string_of_nat (unat w)"
| "number_to_string (Neg w) = (if w = 0 then ''0'' else CHR ''-'' # string_of_nat (unat w))"
| "number_to_string NaN = ''NaN''"
| "number_to_string Infinity = ''Infinity''"
| "number_to_string NegInfinity = ''-Infinity''"

fun join :: "string \<Rightarrow> string list \<Rightarrow> string" where
  "join sep [] = []"
| "join sep [x] = x"
| "join sep (x # y # ys) = x @ sep @ join sep (y # ys)"

definition has_key :: "(string \<times> jsval) list \<Rightarrow> string \<Rightarrow> bool" where
  "has_key kvs k = (map_of kvs k \<noteq> None)"

text \<open>
  \<open>String(v)\<close>. An Error object prints through \<open>Error.prototype.toString\<close>, an array
  joins its elements with commas (\<open>null\<close> and \<open>undefined\<close> print empty), an object prints
  as \<open>[object Object]\<close> unless an own data property shadows \<open>toString\<close>, and then the
  conversion finds no primitive and throws.
\<close>

fun js_String :: "jsval \<Rightarrow> jsval + string" where
  "js_String JUndefined = Inr ''undefined''"
| "js_String JNull = Inr ''null''"
| "js_String (JBool b) = Inr (if b then ''true'' else ''false'')"
| "js_String (JNum n) = Inr (number_to_string n)"
| "js_String (JStr s) = Inr s"
| "js_String (JError n m) = Inr (if n = [] then m else if m = [] then n else n @ '': '' @ m)"
| "js_String (JObj kvs) =
     (if has_key kvs ''toString'' then Inl (TypeError ''Cannot convert object to primitive value'')
      else Inr ''[object Object]'')"
| "js_String (JArr xs) =
     (let parts = map (\<lambda>x. if x = JUndefined \<or> x = JNull then Inr [] else js_String x) xs
      in case filter isl parts of
           e # _ \<Rightarrow> Inl (projl e)
         | [] \<Rightarrow> Inr (join '','' (map projr parts)))"

subsection \<open>JSON.stringify\<close>

definition lower_hex_digits :: string where
  "lower_hex_digits = ''0123456789abcdef''"

definition upper_hex_digits :: string where
  "upper_hex_digits = ''0123456789ABCDEF''"

definition hex_lower :: "nat \<Rightarrow> char" where
  "hex_lower d = lower_hex_digits ! d"

definition hex_upper :: "nat \<Rightarrow> char" where
  "hex_upper d = upper_hex_digits ! d"

definition json_quote_char :: "char \<Rightarrow> string" where
  "json_quote_char c =
     (if c = CHR 0x22 then [CHR 0x5C, CHR 0x22]
      else if c = CHR 0x5C then [CHR 0x5C, CHR 0x5C]
      else if c = CHR 0x08 then [CHR 0x5C, CHR ''b'']
      else if c = CHR 0x0C then [CHR 0x5C, CHR ''f'']
      else if c = CHR 0x0A then [CHR 0x5C, CHR ''n'']
      else if c = CHR 0x0D then [CHR 0x5C, CHR ''r'']
      else if c = CHR 0x09 then [CHR 0x5C, CHR ''t'']
      else if (of_char c :: nat) < 32
        then [CHR 0x5C, CHR ''u'', CHR ''0'', CHR ''0'',
              hex_lower (of_char c div 16), hex_lower (of_char c mod 16)]
      else [c])"

definition json_quote :: "string \<Rightarrow> string" where
  "json_quote s = [CHR 0x22] @ concat (map json_quote_char s) @ [CHR 0x22]"

text \<open>
  \<open>JSON.stringify(v)\<close>: \<open>undefined\<close> at the top has no JSON text (the result is
  \<open>undefined\<close>, here \<open>None\<close>), inside an array it prints as \<open>null\<close>, and a property
  holding it is left out. \<open>NaN\<close> and the infinities print as \<open>null\<close>. An Error object
  has no enumerable property.
\<close>

fun stringify :: "jsval \<Rightarrow> string option" where
  "stringify JUndefined = None"
| "stringify JNull = Some ''null''"
| "stringify (JBool b) = Some (if b then ''true'' else ''false'')"
| "stringify (JNum n) =
     Some (if n = NaN \<or> n = Infinity \<or> n = NegInfinity then ''null'' else number_to_string n)"
| "stringify (JStr s) = Some (json_quote s)"
| "stringify (JError n m) = Some ''{}''"
| "stringify (JArr xs) =
     Some (''['' @ join '','' (map (\<lambda>x. case stringify x of None \<Rightarrow> ''null'' | Some s \<Rightarrow> s) xs) @ '']'')"
| "stringify (JObj kvs) =
     Some (''{'' @ join '',''
        (concat (map (\<lambda>kv. case stringify (snd kv) of None \<Rightarrow> []
                            | Some s \<Rightarrow> [json_quote (fst kv) @ '':'' @ s]) kvs)) @ ''}'')"

section \<open>URL encoding\<close>

definition percent_encode_octet :: "nat \<Rightarrow> string" where
  "percent_encode_octet b = [CHR ''%'', hex_upper (b div 16), hex_upper (b mod 16)]"

definition percent_encode_byte :: "char \<Rightarrow> string" where
  "percent_encode_byte c = percent_encode_octet (of_char c)"

definition alphanumeric :: string where
  "alphanumeric = ''ABCDEFGHIJKLMNOPQRSTUVWXYZabcdefghijklmnopqrstuvwxyz0123456789''"

text \<open>
  \<open>encodeURIComponent\<close> reads its argument by UTF-16 code units, so an identifier is
  given as the list of its code units. (The other strings of the model, which the client
  only concatenates or hands to a serializer that never throws, stay lists of bytes.)
  \<open>units_of\<close> is the string whose code units are the character codes of a text.
\<close>

type_synonym jsstring = "16 word list"

definition units_of :: "string \<Rightarrow> jsstring" where
  "units_of s = map (\<lambda>c. of_nat (of_char c)) s"

definition high_surrogate :: "nat \<Rightarrow> bool" where
  "high_surrogate n = (0xD800 \<le> n \<and> n \<le> 0xDBFF)"

definition low_surrogate :: "nat \<Rightarrow> bool" where
  "low_surrogate n = (0xDC00 \<le> n \<and> n \<le> 0xDFFF)"

text \<open>
  The code points of a string: a high surrogate and the low surrogate after it make one
  code point from \<open>0x10000\<close> on, any other code unit is its own code point, and a
  surrogate without its partner is unpaired (\<open>None\<close>).
\<close>

fun code_points :: "jsstring \<Rightarrow> nat list option" where
  "code_points [] = Some []"
| "code_points (u # us) =
     (if low_surrogate (unat u) then None
      else if high_surrogate (unat u) then
        (case us of
           [] \<Rightarrow> None
         | v # vs \<Rightarrow>
             if low_surrogate (unat v)
             then map_option ((#) ((unat u - 0xD800) * 0x400 + (unat v - 0xDC00) + 0x10000))
                    (code_points vs)
             else None)
      else map_option ((#) (unat u)) (code_points us))"

text \<open>The octets of the UTF-8 form of a code point.\<close>

definition utf8_octets :: "nat \<Rightarrow> nat list" where
  "utf8_octets cp =
     (if cp < 0x80 then [cp]
      else if cp < 0x800 then [0xC0 + cp div 64, 0x80 + cp mod 64]
      else if cp < 0x10000 then [0xE0 + cp div 4096, 0x80 + (cp div 64) mod 64, 0x80 + cp mod 64]
      else [0xF0 + cp div 262144, 0x80 + (cp div 4096) mod 64, 0x80 + (cp div 64) mod 64,
            0x80 + cp mod 64])"

definition uri_unreserved_chars :: string where
  "uri_unreserved_chars = alphanumeric @ ''-_.!~*()'' @ apostrophe"

definition URIError :: jsval where
  "URIError = JError ''URIError'' ''URI malformed''"

text \<open>
  \<open>encodeURIComponent\<close> keeps the letters, the digits and \<open>- _ . ! ~ * ' ( )\<close>, writes
  every other code point as the octets of its UTF-8 form, each as \<open>%XX\<close> in upper-case
  hexadecimal, and throws a URIError on a string with an unpaired surrogate.
\<close>

definition encode_code_point :: "nat \<Rightarrow> string" where
  "encode_code_point cp =
     (case find (\<lambda>c. of_char c = cp) uri_unreserved_chars of
        Some c \<Rightarrow> [c]
      | None \<Rightarrow> concat (map percent_encode_octet (utf8_octets cp)))"

definition encodeURIComponent :: "jsstring \<Rightarrow> jsval + string" where
  "encodeURIComponent s =
     (case code_points s of
        None \<Rightarrow> Inl URIError
      | Some cps \<Rightarrow> Inr (concat (map encode_code_point cps)))"

text \<open>
  The serializer of \<open>URLSearchParams.toString()\<close> (application/x-www-form-urlencoded):
  letters, digits and \<open>* - . _\<close> stay, a space becomes \<open>+\<close>, every other byte is \<open>%XX\<close>.
\<close>

definition form_encode_char :: "char \<Rightarrow> string" where
  "form_encode_char c =
     (if c \<in> set (alphanumeric @ ''*-._'') then [c]
      else if c = CHR '' '' then ''+''
      else percent_encode_byte c)"

definition form_encode :: "string \<Rightarrow> string" where
  "form_encode s = concat (map form_encode_char s)"

type_synonym URLSearchParams = "(string \<times> string) list"

text \<open>\<open>query.set(name, value)\<close>: the first pair of that name takes the value and the
  others of that name go; a new name is appended.\<close>

fun usp_set :: "string \<Rightarrow> string \<Rightarrow> URLSearchParams \<Rightarrow> URLSearchParams" where
  "usp_set k v [] = [(k, v)]"
| "usp_set k v (p # ps) =
     (if fst p = k then (k, v) # filter (\<lambda>q. fst q \<noteq> k) ps else p # usp_set k v ps)"

definition usp_toString :: "URLSearchParams \<Rightarrow> string" where
  "usp_toString q = join ''&'' (map (\<lambda>p. form_encode (fst p) @ ''='' @ form_encode (snd p)) q)"

section \<open>The client\<close>

record client =
  baseUrl :: string
  apiKey :: string

text \<open>
  \<open>baseUrl.replace(/\/+$/, "")\<close>: the leftmost place from which a non-empty run of
  slashes reaches the end of the string is where the match starts; it is replaced by
  the empty string. Without a match the string is returned as it is.
\<close>

fun replace_trailing_slashes :: "string \<Rightarrow> string" where
  "replace_trailing_slashes [] = []"
| "replace_trailing_slashes (c # cs) =
     (if c = CHR ''/'' \<and> list_all (\<lambda>d. d = CHR ''/'') cs then []
      else c # replace_trailing_slashes cs)"

definition N8nClient :: "string \<Rightarrow> string \<Rightarrow> client" where
  "N8nClient url key = \<lparr>baseUrl = replace_trailing_slashes url, apiKey = key\<rparr>"

subsection \<open>The network\<close>

text \<open>The \<open>RequestInit\<close> a method passes to \<open>request\<close>; an absent member is \<open>None\<close>.\<close>

record request_init =
  init_method :: "string option"
  init_headers :: "(string \<times> string) list option"
  init_body :: "string option"

definition no_options :: request_init where
  "no_options = \<lparr>init_method = None, init_headers = None, init_body = None\<rparr>"

text \<open>What \<open>fetch\<close> is called with. A call without a method is a GET.\<close>

record http_request =
  req_url :: string
  req_method :: "string option"
  req_headers :: "(string \<times> string) list"
  req_body :: "string option"

text \<open>
  What the client reads of a \<open>Response\<close>: the status and its text, the
  \<open>content-type\<close> header (\<open>None\<close> when \<open>headers.get\<close> returns \<open>null\<close>), and the
  outcomes of \<open>response.text()\<close> and \<open>response.json()\<close>, each a value or the rejection.
\<close>

record response =
  resp_status :: nat
  resp_statusText :: string
  resp_content_type :: "string option"
  resp_text :: "jsval + string"
  resp_json :: "jsval + jsval"

text \<open>\<open>response.ok\<close>: the status is in the range 200 to 299.\<close>

definition resp_ok :: "response \<Rightarrow> bool" where
  "resp_ok r = (200 \<le> resp_status r \<and> resp_status r \<le> 299)"

text \<open>\<open>fetch\<close>: the response, or the value the promise is rejected with.\<close>

type_synonym fetch = "http_request \<Rightarrow> jsval + response"

text \<open>A call of a method: the requests it issued, and its value or the value it threw.\<close>

type_synonym 'a call = "http_request list \<times> (jsval + 'a)"

subsection \<open>The request primitive\<close>

text \<open>The object spread \<open>{...defaults, ...extra}\<close>: a key already there keeps its place
  and takes the later value, a new key is appended.\<close>

definition spread :: "(string \<times> string) list \<Rightarrow> (string \<times> string) list \<Rightarrow> (string \<times> string) list" where
  "spread defaults extra = fold (\<lambda>kv hs. AList.update (fst kv) (snd kv) hs) extra defaults"

definition request_headers :: "client \<Rightarrow> request_init \<Rightarrow> (string \<times> string) list" where
  "request_headers c options =
     spread [(''Content-Type'', ''application/json''),
             (''Accept'', ''application/json''),
             (''X-N8N-API-KEY'', apiKey c)]
            (case init_headers options of None \<Rightarrow> [] | Some hs \<Rightarrow> hs)"

definition request_url :: "client \<Rightarrow> string \<Rightarrow> string" where
  "request_url c path = baseUrl c @ path"

definition fetch_args :: "client \<Rightarrow> string \<Rightarrow> request_init \<Rightarrow> http_request" where
  "fetch_args c path options =
     \<lparr>req_url = request_url c path,
      req_method = init_method options,
      req_headers = request_headers c options,
      req_body = init_body options\<rparr>"

definition error_message :: "response \<Rightarrow> string" where
  "error_message r =
     (let text = (case resp_text r of Inl e \<Rightarrow> [] | Inr t \<Rightarrow> t)
      in ''n8n API error '' @ string_of_nat (resp_status r) @ '' '' @ resp_statusText r @ '': '' @ text)"

definition handle_response :: "response \<Rightarrow> jsval + jsval" where
  "handle_response r =
     (if \<not> resp_ok r then Inl (JError ''Error'' (error_message r))
      else
        let contentType = (case resp_content_type r of None \<Rightarrow> [] | Some h \<Rightarrow> if h \<noteq> [] then h else [])
        in if sublist ''application/json'' contentType then
             (case resp_json r of
                Inl e \<Rightarrow> Inl e
              | Inr json \<Rightarrow>
                  (case get_prop json ''data'' of
                     Inl e \<Rightarrow> Inl e
                   | Inr d \<Rightarrow> Inr (js_or d json)))
           else (case resp_text r of Inl e \<Rightarrow> Inl e | Inr t \<Rightarrow> Inr (JStr t)))"

definition request :: "client \<Rightarrow> fetch \<Rightarrow> string \<Rightarrow> request_init \<Rightarrow> jsval call" where
  "request c fetch path options =
     (let req = fetch_args c path options
      in ([req], case fetch req of Inl e \<Rightarrow> Inl e | Inr r \<Rightarrow> handle_response r))"

subsection \<open>The public methods\<close>

definition with_method :: "string \<Rightarrow> request_init" where
  "with_method m = \<lparr>init_method = Some m, init_headers = None, init_body = None\<rparr>"

definition with_body :: "string \<Rightarrow> string option \<Rightarrow> request_init" where
  "with_body m b = \<lparr>init_method = Some m, init_headers = None, init_body = b\<rparr>"

definition getInstanceInfo :: "client \<Rightarrow> fetch \<Rightarrow> jsval call" where
  "getInstanceInfo c fetch = request c fetch ''/api/v1/health'' no_options"

definition getInstanceVersion :: "client \<Rightarrow> fetch \<Rightarrow> jsval call" where
  "getInstanceVersion c fetch = request c fetch ''/api/v1/settings'' no_options"

definition listWorkflows :: "client \<Rightarrow> fetch \<Rightarrow> jsval call" where
  "listWorkflows c fetch = request c fetch ''/api/v1/workflows'' no_options"

text \<open>
  An identifier is encoded while the path is built, before anything is sent: when
  \<open>encodeURIComponent\<close> throws, the method throws with no request issued.
\<close>

definition getWorkflow :: "client \<Rightarrow> fetch \<Rightarrow> jsstring \<Rightarrow> jsval call" where
  "getWorkflow c fetch ident =
     (case encodeURIComponent ident of
        Inl e \<Rightarrow> ([], Inl e)
      | Inr segment \<Rightarrow>
          request c fetch (''/api/v1/workflows/'' @ segment) no_options)"

definition createWorkflow :: "client \<Rightarrow> fetch \<Rightarrow> jsval \<Rightarrow> jsval call" where
  "createWorkflow c fetch data =
     request c fetch ''/api/v1/workflows'' (with_body ''POST'' (stringify data))"

definition updateWorkflow :: "client \<Rightarrow> fetch \<Rightarrow> jsstring \<Rightarrow> jsval \<Rightarrow> jsval call" where
  "updateWorkflow c fetch ident data =
     (case encodeURIComponent ident of
        Inl e \<Rightarrow> ([], Inl e)
      | Inr segment \<Rightarrow>
          request c fetch (''/api/v1/workflows/'' @ segment)
            (with_body ''PATCH'' (stringify data)))"

definition deleteWorkflow :: "client \<Rightarrow> fetch \<Rightarrow> jsstring \<Rightarrow> jsval call" where
  "deleteWorkflow c fetch ident =
     (case encodeURIComponent ident of
        Inl e \<Rightarrow> ([], Inl e)
      | Inr segment \<Rightarrow>
          request c fetch (''/api/v1/workflows/'' @ segment)
            (with_method ''DELETE''))"

text \<open>The default \<open>data = {}\<close> stands in for an argument that is \<open>undefined\<close>.\<close>

definition executeWorkflow :: "client \<Rightarrow> fetch \<Rightarrow> jsstring \<Rightarrow> jsval \<Rightarrow> jsval call" where
  "executeWorkflow c fetch ident data =
     (case encodeURIComponent ident of
        Inl e \<Rightarrow> ([], Inl e)
      | Inr segment \<Rightarrow>
          (let data = (if data = JUndefined then JObj [] else data)
           in request c fetch (''/api/v1/workflows/'' @ segment @ ''/execute'')
                (with_body ''POST'' (stringify (JObj [(''data'', data)])))))"

text \<open>The parameters of \<open>getExecutions\<close>; \<open>None\<close> is a member that is absent,
  \<open>undefined\<close> or \<open>null\<close>: the three that \<open>!= null\<close> rejects.\<close>

record execution_params =
  limit :: "jsnum option"
  lastId :: "string option"

definition getExecutions_path :: "execution_params \<Rightarrow> string" where
  "getExecutions_path params =
     (let query = [];
          query = (case limit params of None \<Rightarrow> query
                   | Some n \<Rightarrow> usp_set ''limit'' (number_to_string n) query);
          query = (case lastId params of None \<Rightarrow> query
                   | Some s \<Rightarrow> usp_set ''lastId'' s query);
          suffix = (if usp_toString query \<noteq> [] then ''?'' @ usp_toString query else [])
      in ''/api/v1/executions'' @ suffix)"

definition getExecutions :: "client \<Rightarrow> fetch \<Rightarrow> execution_params \<Rightarrow> jsval call" where
  "getExecutions c fetch params = request c fetch (getExecutions_path params) no_options"

definition getExecution :: "client \<Rightarrow> fetch \<Rightarrow> jsstring \<Rightarrow> jsval call" where
  "getExecution c fetch ident =
     (case encodeURIComponent ident of
        Inl e \<Rightarrow> ([], Inl e)
      | Inr segment \<Rightarrow>
          request c fetch (''/api/v1/executions/'' @ segment) no_options)"

definition stopExecution :: "client \<Rightarrow> fetch \<Rightarrow> jsstring \<Rightarrow> jsval call" where
  "stopExecution c fetch ident =
     (case encodeURIComponent ident of
        Inl e \<Rightarrow> ([], Inl e)
      | Inr segment \<Rightarrow>
          request c fetch (''/api/v1/executions/'' @ segment)
            (with_body ''POST'' (stringify (JObj [(''stop'', JBool True)]))))"

definition listTags :: "client \<Rightarrow> fetch \<Rightarrow> jsval call" where
  "listTags c fetch = request c fetch ''/api/v1/tags'' no_options"

definition createTag :: "client \<Rightarrow> fetch \<Rightarrow> jsval \<Rightarrow> jsval call" where
  "createTag c fetch data = request c fetch ''/api/v1/tags'' (with_body ''POST'' (stringify data))"

definition listCredentials :: "client \<Rightarrow> fetch \<Rightarrow> jsval call" where
  "listCredentials c fetch = request c fetch ''/api/v1/credentials'' no_options"

definition getCredential :: "client \<Rightarrow> fetch \<Rightarrow> jsstring \<Rightarrow> jsval call" where
  "getCredential c fetch ident =
     (case encodeURIComponent ident of
        Inl e \<Rightarrow> ([], Inl e)
      | Inr segment \<Rightarrow>
          request c fetch (''/api/v1/credentials/'' @ segment) no_options)"

definition createCredential :: "client \<Rightarrow> fetch \<Rightarrow> jsval \<Rightarrow> jsval call" where
  "createCredential c fetch data =
     request c fetch ''/api/v1/credentials'' (with_body ''POST'' (stringify data))"

definition updateCredential :: "client \<Rightarrow> fetch \<Rightarrow> jsstring \<Rightarrow> jsval \<Rightarrow> jsval call" where
  "updateCredential c fetch ident data =
     (case encodeURIComponent ident of
        Inl e \<Rightarrow> ([], Inl e)
      | Inr segment \<Rightarrow>
          request c fetch (''/api/v1/credentials/'' @ segment)
            (with_body ''PATCH'' (stringify data)))"

definition deleteCredential :: "client \<Rightarrow> fetch \<Rightarrow> jsstring \<Rightarrow> jsval call" where
  "deleteCredential c fetch ident =
     (case encodeURIComponent ident of
        Inl e \<Rightarrow> ([], Inl e)
      | Inr segment \<Rightarrow>
          request c fetch (''/api/v1/credentials/'' @ segment)
            (with_method ''DELETE''))"

definition listNodeTypes :: "client \<Rightarrow> fetch \<Rightarrow> jsval call" where
  "listNodeTypes c fetch = request c fetch ''/api/v1/node-types'' no_options"

text \<open>
  \<open>types.find((t) => t.name === name)\<close> on an array: the elements in order, the first
  for which the callback is true; \<open>undefined\<close> after the last. The callback reads
  \<open>t.name\<close>, which throws on an element that is \<open>null\<close> or \<open>undefined\<close>, and
  \<open>===\<close> holds only for a string equal to \<open>name\<close>.
\<close>

fun find_by_name :: "string \<Rightarrow> jsval list \<Rightarrow> jsval + jsval" where
  "find_by_name name [] = Inr JUndefined"
| "find_by_name name (t # ts) =
     (case get_prop t ''name'' of
        Inl e \<Rightarrow> Inl e
      | Inr v \<Rightarrow> if v = JStr name then Inr t else find_by_name name ts)"

text \<open>A value that is not an array has no method \<open>find\<close>, and the call throws.\<close>

fun types_find :: "jsval \<Rightarrow> string \<Rightarrow> jsval + jsval" where
  "types_find (JArr ts) name = find_by_name name ts"
| "types_find JUndefined name = get_prop JUndefined ''find''"
| "types_find JNull name = get_prop JNull ''find''"
| "types_find v name = Inl (TypeError ''types.find is not a function'')"

definition getNodeType :: "client \<Rightarrow> fetch \<Rightarrow> string \<Rightarrow> jsval call" where
  "getNodeType c fetch name =
     (case request c fetch ''/api/v1/node-types'' no_options of
        (reqs, Inl e) \<Rightarrow> (reqs, Inl e)
      | (reqs, Inr types) \<Rightarrow> (reqs, types_find types name))"

definition listVariables :: "client \<Rightarrow> fetch \<Rightarrow> jsval call" where
  "listVariables c fetch = request c fetch ''/api/v1/variables'' no_options"

definition getVariable :: "client \<Rightarrow> fetch \<Rightarrow> jsstring \<Rightarrow> jsval call" where
  "getVariable c fetch ident =
     (case encodeURIComponent ident of
        Inl e \<Rightarrow> ([], Inl e)
      | Inr segment \<Rightarrow>
          request c fetch (''/api/v1/variables/'' @ segment) no_options)"

definition createVariable :: "client \<Rightarrow> fetch \<Rightarrow> jsval \<Rightarrow> jsval call" where
  "createVariable c fetch data =
     request c fetch ''/api/v1/variables'' (with_body ''POST'' (stringify data))"

definition updateVariable :: "client \<Rightarrow> fetch \<Rightarrow> jsstring \<Rightarrow> jsval \<Rightarrow> jsval call" where
  "updateVariable c fetch ident data =
     (case encodeURIComponent ident of
        Inl e \<Rightarrow> ([], Inl e)
      | Inr segment \<Rightarrow>
          request c fetch (''/api/v1/variables/'' @ segment)
            (with_body ''PATCH'' (stringify data)))"

definition deleteVariable :: "client \<Rightarrow> fetch \<Rightarrow> jsstring \<Rightarrow> jsval call" where
  "deleteVariable c fetch ident =
     (case encodeURIComponent ident of
        Inl e \<Rightarrow> ([], Inl e)
      | Inr segment \<Rightarrow>
          request c fetch (''/api/v1/variables/'' @ segment)
            (with_method ''DELETE''))"

definition activateWorkflow :: "client \<Rightarrow> fetch \<Rightarrow> jsstring \<Rightarrow> jsval call" where
  "activateWorkflow c fetch ident = updateWorkflow c fetch ident (JObj [(''active'', JBool True)])"

definition deactivateWorkflow :: "client \<Rightarrow> fetch \<Rightarrow> jsstring \<Rightarrow> jsval call" where
  "deactivateWorkflow c fetch ident = updateWorkflow c fetch ident (JObj [(''active'', JBool False)])"

subsection \<open>The diagnostic helpers\<close>

definition testConnection :: "client \<Rightarrow> fetch \<Rightarrow> bool call" where
  "testConnection c fetch =
     (case listWorkflows c fetch of
        (reqs, Inr workflows) \<Rightarrow> (reqs, Inr True)
      | (reqs, Inl error) \<Rightarrow> (reqs, Inr False))"

datatype details = WorkflowCount nat | ErrorText string

record self_test =
  status :: string
  message :: jsval
  details :: details

definition selfTest :: "client \<Rightarrow> fetch \<Rightarrow> self_test call" where
  "selfTest c fetch =
     (case listWorkflows c fetch of
        (reqs, Inr workflows) \<Rightarrow>
          (reqs, Inr \<lparr>status = ''ok'',
                      message = JStr ''Connection successful'',
                      details = WorkflowCount (case workflows of JArr xs \<Rightarrow> length xs | _ \<Rightarrow> 0)\<rparr>)
      | (reqs, Inl error) \<Rightarrow>
          (reqs,
           case get_prop error ''message'' of
             Inl e \<Rightarrow> Inl e
           | Inr m \<Rightarrow>
               (case js_String error of
                  Inl e \<Rightarrow> Inl e
                | Inr s \<Rightarrow> Inr \<lparr>status = ''error'',
                                 message = js_or m (JStr ''Connection failed''),
                                 details = ErrorText s\<rparr>)))"

section \<open>Well-formed path segments\<close>

text \<open>
  RFC 3986: a path segment is a sequence of \<open>pchar\<close>, and a \<open>pchar\<close> is an unreserved
  character, a sub-delimiter, \<open>:\<close>, \<open>@\<close>, or a percent sign followed by two hexadecimal
  digits. The slash, the question mark and the number sign are not among them: they end
  the segment, the path and the query.
\<close>

definition pchar_plain :: "char \<Rightarrow> bool" where
  "pchar_plain c = (c \<in> set (alphanumeric @ ''-._~'' @ ''!$&()*+,;='' @ apostrophe @ '':@''))"

definition hex_digit :: "char \<Rightarrow> bool" where
  "hex_digit c = (c \<in> set ''0123456789ABCDEFabcdef'')"

fun segment_ok :: "string \<Rightarrow> bool" where
  "segment_ok [] = True"
| "segment_ok (c # cs) =
     (if c = CHR ''%'' then
        (case cs of h1 # h2 # rest \<Rightarrow> hex_digit h1 \<and> hex_digit h2 \<and> segment_ok rest | _ \<Rightarrow> False)
      else pchar_plain c \<and> segment_ok cs)"

text \<open>
  Percent-decoding a segment: \<open>%XX\<close> stands for the octet with the hexadecimal numeral
  \<open>XX\<close>, any other character for its own code; a percent sign without two hexadecimal
  digits after it has no decoding.
\<close>

definition hex_value :: "char \<Rightarrow> nat option" where
  "hex_value c =
     map_of (zip ''0123456789ABCDEFabcdef''
               [0, 1, 2, 3, 4, 5, 6, 7, 8, 9, 10, 11, 12, 13, 14, 15, 10, 11, 12, 13, 14, 15]) c"

fun percent_decode :: "string \<Rightarrow> nat list option" where
  "percent_decode [] = Some []"
| "percent_decode (c # cs) =
     (if c = CHR ''%'' then
        (case cs of
           h1 # h2 # rest \<Rightarrow>
             (case (hex_value h1, hex_value h2) of
                (Some a, Some b) \<Rightarrow> map_option ((#) (16 * a + b)) (percent_decode rest)
              | _ \<Rightarrow> None)
         | _ \<Rightarrow> None)
      else map_option ((#) (of_char c)) (percent_decode cs))"

text \<open>The UTF-8 form of a string; a string with an unpaired surrogate has none.\<close>

definition utf8 :: "jsstring \<Rightarrow> nat list option" where
  "utf8 s = map_option (\<lambda>cps. concat (map utf8_octets cps)) (code_points s)"

section \<open>Sample servers\<close>

text \<open>A \<open>fetch\<close> whose promise is rejected with \<open>v\<close>, and one that answers every
  request with the response \<open>r\<close>.\<close>

definition fetch_rejects :: "jsval \<Rightarrow> fetch" where
  "fetch_rejects v req = Inl v"

definition fetch_responds :: "response \<Rightarrow> fetch" where
  "fetch_responds r req = Inr r"

text \<open>A 200 response of content type \<open>application/json\<close> whose body parses to \<open>v\<close>.\<close>

definition json_response :: "jsval \<Rightarrow> response" where
  "json_response v =
     \<lparr>resp_status = 200, resp_statusText = ''OK'',
      resp_content_type = Some ''application/json'',
      resp_text = Inr (case stringify v of None \<Rightarrow> [] | Some s \<Rightarrow> s),
      resp_json = Inr v\<rparr>"

text \<open>A response of status \<open>n\<close> with a plain-text body.\<close>

definition text_response :: "nat \<Rightarrow> string \<Rightarrow> string \<Rightarrow> response" where
  "text_response n reason body =
     \<lparr>resp_status = n, resp_statusText = reason,
      resp_content_type = Some ''text/plain'',
      resp_text = Inr body,
      resp_json = Inl (JError ''SyntaxError'' ''Unexpected token'')\<rparr>"

text \<open>A response of status \<open>n\<close> whose body cannot be read.\<close>

definition unreadable_response :: "nat \<Rightarrow> string \<Rightarrow> response" where
  "unreadable_response n reason =
     \<lparr>resp_status = n, resp_statusText = reason,
      resp_content_type = None,
      resp_text = Inl (JError ''TypeError'' ''terminated''),
      resp_json = Inl (JError ''TypeError'' ''terminated'')\<rparr>"

definition sample_client :: client where
  "sample_client = N8nClient ''http://x/'' ''secret''"

text \<open>A node-type list with a repeated name and a name that differs only in case.\<close>

definition sample_types :: "jsval list" where
  "sample_types =
     [JObj [(''name'', JStr ''a'')],
      JObj [(''name'', JStr ''B''), (''version'', JNum (Pos 0))],
      JObj [(''name'', JStr ''b''), (''version'', JNum (Pos 1))],
      JObj [(''name'', JStr ''b''), (''version'', JNum (Pos 2))]]"

section \<open>Construction: trailing slashes\<close>

lemma all_slashes_replaced:
  "list_all (\<lambda>d. d = CHR ''/'') s \<Longrightarrow> replace_trailing_slashes s = []"
  by (cases s) simp_all

text \<open>The replacement removes the whole run of slashes at the end, and nothing else.\<close>

lemma replace_trailing_slashes_dropWhile:
  "replace_trailing_slashes s = rev (dropWhile (\<lambda>d. d = CHR ''/'') (rev s))"
proof (induction s)
  case Nil
  show ?case by simp
next
  case (Cons c cs)
  show ?case
  proof (cases "list_all (\<lambda>d. d = CHR ''/'') cs")
    case True
    then have "dropWhile (\<lambda>d. d = CHR ''/'') (rev cs @ [c]) = dropWhile (\<lambda>d. d = CHR ''/'') [c]"
      by (intro dropWhile_append2) (simp add: list_all_iff)
    with True show ?thesis
      by (simp add: all_slashes_replaced)
  next
    case False
    then obtain x where "x \<in> set (rev cs)" "\<not> x = CHR ''/''"
      by (auto simp: list_all_iff)
    then have "dropWhile (\<lambda>d. d = CHR ''/'') (rev cs @ [c])
               = dropWhile (\<lambda>d. d = CHR ''/'') (rev cs) @ [c]"
      by (intro dropWhile_append1)
    with False Cons.IH show ?thesis
      by simp
  qed
qed

lemma replace_trailing_slashes_append:
  "replace_trailing_slashes (s @ replicate n (CHR ''/'')) = replace_trailing_slashes s"
proof -
  have "dropWhile (\<lambda>d. d = CHR ''/'') (replicate n (CHR ''/'') @ rev s)
        = dropWhile (\<lambda>d. d = CHR ''/'') (rev s)"
    by (intro dropWhile_append2) simp
  then show ?thesis
    by (simp add: replace_trailing_slashes_dropWhile)
qed

text \<open>
  C6. A client built from a base URL \<open>s\<close> followed by one or more slashes is the same
  client as the one built from \<open>s\<close>: the two have the same fields, so every method of
  one issues the request the other issues; in particular the request primitive, through
  which every method goes, composes the same URL for every path. The base URLs
  \<open>http://x/\<close> and \<open>http://x\<close> both give \<open>http://x/api/v1/workflows\<close> for
  \<open>listWorkflows\<close>.
\<close>

theorem trailing_slashes_same_requests:
  "N8nClient (s @ replicate (Suc n) (CHR ''/'')) k = N8nClient s k
   \<and> request_url (N8nClient (s @ replicate (Suc n) (CHR ''/'')) k) path
       = request_url (N8nClient s k) path
   \<and> request (N8nClient (s @ replicate (Suc n) (CHR ''/'')) k) fetch path options
       = request (N8nClient s k) fetch path options
   \<and> map req_url (fst (listWorkflows (N8nClient ''http://x/'' k) fetch)) = [''http://x/api/v1/workflows'']
   \<and> map req_url (fst (listWorkflows (N8nClient ''http://x'' k) fetch)) = [''http://x/api/v1/workflows'']"
proof -
  have same: "N8nClient (s @ replicate (Suc n) (CHR ''/'')) k = N8nClient s k"
    unfolding N8nClient_def by (simp only: replace_trailing_slashes_append)
  have ex1: "map req_url (fst (listWorkflows (N8nClient ''http://x/'' k) fetch))
             = [''http://x/api/v1/workflows'']"
    by (simp add: listWorkflows_def request_def fetch_args_def request_url_def N8nClient_def Let_def)
  have ex2: "map req_url (fst (listWorkflows (N8nClient ''http://x'' k) fetch))
             = [''http://x/api/v1/workflows'']"
    by (simp add: listWorkflows_def request_def fetch_args_def request_url_def N8nClient_def Let_def)
  from same ex1 ex2 show ?thesis by simp
qed

section \<open>What a call sends\<close>

lemma request_issues: "fst (request c fetch path options) = [fetch_args c path options]"
  by (simp add: request_def Let_def)

lemma request_outcome:
  "snd (request c fetch path options)
   = (case fetch (fetch_args c path options) of Inl e \<Rightarrow> Inl e | Inr r \<Rightarrow> handle_response r)"
  by (simp add: request_def Let_def)

section \<open>The query string of getExecutions\<close>

lemma digit_char_in: "d < 10 \<Longrightarrow> digit_char d \<in> set ''0123456789''"
  unfolding digit_char_def by (intro nth_mem) simp

lemma string_of_nat_digits: "set (string_of_nat n) \<subseteq> set ''0123456789''"
proof (induction n rule: string_of_nat.induct)
  case (1 n)
  show ?case
  proof (cases "n < 10")
    case True
    then show ?thesis
      using digit_char_in [of n] by (subst string_of_nat.simps) simp
  next
    case False
    with 1 have "set (string_of_nat (n div 10)) \<subseteq> set ''0123456789''" by simp
    moreover have "digit_char (n mod 10) \<in> set ''0123456789''"
      by (rule digit_char_in) simp
    ultimately show ?thesis
      using False by (subst string_of_nat.simps) simp
  qed
qed

lemma digit_char_value: "d < 10 \<Longrightarrow> (of_char (digit_char d) :: nat) = 48 + d"
proof -
  have "\<forall>d<10. (of_char (digit_char d) :: nat) = 48 + d"
    by (simp add: digit_char_def eval_nat_numeral All_less_Suc)
  then show "d < 10 \<Longrightarrow> (of_char (digit_char d) :: nat) = 48 + d"
    by blast
qed

text \<open>\<open>string_of_nat\<close> writes the decimal numeral of its argument.\<close>

lemma string_of_nat_decimal: "nat_of_digits (string_of_nat n) = n"
proof (induction n rule: string_of_nat.induct)
  case (1 n)
  show ?case
  proof (cases "n < 10")
    case True
    then show ?thesis
      by (subst string_of_nat.simps) (simp add: nat_of_digits_def digit_char_value)
  next
    case False
    with 1 have "nat_of_digits (string_of_nat (n div 10)) = n div 10"
      by simp
    moreover have "(of_char (digit_char (n mod 10)) :: nat) = 48 + n mod 10"
      by (rule digit_char_value) simp
    ultimately show ?thesis
      using False by (subst string_of_nat.simps) (simp add: nat_of_digits_def)
  qed
qed

lemma form_encode_fixed:
  "set s \<subseteq> set (alphanumeric @ ''*-._'') \<Longrightarrow> form_encode s = s"
  unfolding form_encode_def
  by (induction s) (simp_all add: form_encode_char_def)

lemma number_to_string_chars:
  "set (number_to_string n) \<subseteq> set (alphanumeric @ ''*-._'')"
proof -
  have "set ''0123456789'' \<subseteq> set (alphanumeric @ ''*-._'')"
    by (simp add: alphanumeric_def)
  then have digits: "set (string_of_nat m) \<subseteq> set (alphanumeric @ ''*-._'')" for m
    using string_of_nat_digits [of m] by (rule order_trans [rotated])
  show ?thesis
  proof (cases n)
    case (Pos w)
    with digits show ?thesis by simp
  next
    case (Neg w)
    with digits [of "unat w"] show ?thesis by (simp add: alphanumeric_def)
  qed (simp_all add: alphanumeric_def)
qed

lemma form_encode_number: "form_encode (number_to_string n) = number_to_string n"
  by (rule form_encode_fixed) (rule number_to_string_chars)

lemma string_of_nat_small: "string_of_nat 0 = ''0''" "string_of_nat 10 = ''10''"
  by (simp_all add: string_of_nat.simps digit_char_def)

lemma number_to_string_10: "number_to_string (Pos 10) = ''10''"
  by (simp add: string_of_nat_small)

lemma number_to_string_0: "number_to_string (Pos 0) = ''0''" "number_to_string (Neg 0) = ''0''"
  by (simp_all add: string_of_nat_small)

text \<open>For a safe integer \<open>String\<close> writes the decimal numeral, after the sign.\<close>

lemma number_to_string_decimal:
  "nat_of_digits (number_to_string (Pos w)) = unat w"
  "w \<noteq> 0 \<Longrightarrow> number_to_string (Neg w) = CHR ''-'' # number_to_string (Pos w)"
  by (simp_all add: string_of_nat_decimal)

lemma form_encode_names:
  "form_encode ''limit'' = ''limit''" "form_encode ''lastId'' = ''lastId''" "form_encode ''abc'' = ''abc''"
  "form_encode [] = []"
  by (simp_all add: form_encode_def form_encode_char_def alphanumeric_def)

lemma getExecutions_path_cases:
  "getExecutions_path p = ''/api/v1/executions'' @
     (case (limit p, lastId p) of
        (None, None) \<Rightarrow> []
      | (Some n, None) \<Rightarrow> ''?limit='' @ number_to_string n
      | (None, Some s) \<Rightarrow> ''?lastId='' @ form_encode s
      | (Some n, Some s) \<Rightarrow> ''?limit='' @ number_to_string n @ ''&lastId='' @ form_encode s)"
  by (simp add: getExecutions_path_def usp_toString_def form_encode_number form_encode_names
      split: option.splits)

text \<open>
  C7. \<open>getExecutions({limit: 10, lastId: "abc"})\<close> requests the path
  \<open>/api/v1/executions?limit=10&lastId=abc\<close>, and \<open>getExecutions({})\<close> (or no
  argument, whose default is \<open>{}\<close>) requests \<open>/api/v1/executions\<close> with no query
  string; the URL fetched is the base URL followed by that path.
\<close>

theorem getExecutions_query_examples:
  "getExecutions_path \<lparr>limit = Some (Pos 10), lastId = Some ''abc''\<rparr>
     = ''/api/v1/executions?limit=10&lastId=abc''
   \<and> getExecutions_path \<lparr>limit = None, lastId = None\<rparr> = ''/api/v1/executions''
   \<and> fst (getExecutions c fetch \<lparr>limit = Some (Pos 10), lastId = Some ''abc''\<rparr>)
       = [fetch_args c ''/api/v1/executions?limit=10&lastId=abc'' no_options]
   \<and> fst (getExecutions c fetch \<lparr>limit = None, lastId = None\<rparr>)
       = [fetch_args c ''/api/v1/executions'' no_options]
   \<and> req_url (fetch_args c ''/api/v1/executions?limit=10&lastId=abc'' no_options)
       = baseUrl c @ ''/api/v1/executions?limit=10&lastId=abc''
   \<and> req_url (fetch_args c ''/api/v1/executions'' no_options) = baseUrl c @ ''/api/v1/executions''"
  by (simp add: getExecutions_path_cases string_of_nat_small getExecutions_def request_issues
      fetch_args_def request_url_def form_encode_names)

text \<open>
  C10. \<open>getExecutions\<close> leaves a parameter out of the query string only when it is
  absent (\<open>null\<close> or \<open>undefined\<close>): a limit that is given, the falsy \<open>0\<close>, \<open>-0\<close>
  and \<open>NaN\<close> included, is written as \<open>limit=\<close> and the text \<open>String\<close> prints for it,
  and a \<open>lastId\<close> that is given, the empty string included, as \<open>lastId=\<close> and its
  form-encoding. So \<open>{limit: 0}\<close> gives \<open>?limit=0\<close> and \<open>{lastId: ""}\<close> gives
  \<open>?lastId=\<close>.
\<close>

theorem getExecutions_omits_only_absent:
  "getExecutions_path p = ''/api/v1/executions'' @
     (case (limit p, lastId p) of
        (None, None) \<Rightarrow> []
      | (Some n, None) \<Rightarrow> ''?limit='' @ number_to_string n
      | (None, Some s) \<Rightarrow> ''?lastId='' @ form_encode s
      | (Some n, Some s) \<Rightarrow> ''?limit='' @ number_to_string n @ ''&lastId='' @ form_encode s)
   \<and> fst (getExecutions c fetch p) = [fetch_args c (getExecutions_path p) no_options]
   \<and> getExecutions_path \<lparr>limit = Some (Pos 0), lastId = None\<rparr> = ''/api/v1/executions?limit=0''
   \<and> getExecutions_path \<lparr>limit = Some (Neg 0), lastId = None\<rparr> = ''/api/v1/executions?limit=0''
   \<and> getExecutions_path \<lparr>limit = Some NaN, lastId = None\<rparr> = ''/api/v1/executions?limit=NaN''
   \<and> getExecutions_path \<lparr>limit = None, lastId = Some []\<rparr> = ''/api/v1/executions?lastId=''"
  using getExecutions_path_cases [of p]
    getExecutions_path_cases [of "\<lparr>limit = Some (Pos 0), lastId = None\<rparr>"]
    getExecutions_path_cases [of "\<lparr>limit = Some (Neg 0), lastId = None\<rparr>"]
    getExecutions_path_cases [of "\<lparr>limit = Some NaN, lastId = None\<rparr>"]
    getExecutions_path_cases [of "\<lparr>limit = None, lastId = Some []\<rparr>"]
  by (simp add: string_of_nat_small form_encode_names getExecutions_def request_issues)

section \<open>Percent-encoded identifiers\<close>

lemma hex_upper_digit: "d < 16 \<Longrightarrow> hex_upper d \<in> set upper_hex_digits"
  unfolding hex_upper_def by (intro nth_mem) (simp add: upper_hex_digits_def)

lemma hex_upper_is_hex_digit: "h \<in> set upper_hex_digits \<Longrightarrow> hex_digit h"
  unfolding hex_digit_def upper_hex_digits_def by auto

lemma hex_value_upper: "d < 16 \<Longrightarrow> hex_value (hex_upper d) = Some d"
proof -
  have "\<forall>d<16. hex_value (hex_upper d) = Some d"
    by (simp add: hex_value_def hex_upper_def upper_hex_digits_def eval_nat_numeral All_less_Suc)
  then show "d < 16 \<Longrightarrow> hex_value (hex_upper d) = Some d"
    by blast
qed

lemma octet_nibbles: "b < 256 \<Longrightarrow> b div 16 < (16::nat)" "b mod 16 < (16::nat)"
  by (simp_all add: less_mult_imp_div_less)

lemma percent_decode_octet:
  assumes "b < 256"
  shows "percent_decode (percent_encode_octet b @ rest) = map_option ((#) b) (percent_decode rest)"
proof -
  have "hex_value (hex_upper (b div 16)) = Some (b div 16)"
    and "hex_value (hex_upper (b mod 16)) = Some (b mod 16)"
    using assms by (simp_all add: hex_value_upper octet_nibbles)
  moreover have "16 * (b div 16) + b mod 16 = b"
    by simp
  ultimately show ?thesis
    by (simp add: percent_encode_octet_def)
qed

lemma percent_decode_octets:
  assumes "\<forall>b\<in>set bs. b < 256"
  shows "percent_decode (concat (map percent_encode_octet bs) @ rest)
         = map_option ((@) bs) (percent_decode rest)"
  using assms
proof (induction bs)
  case Nil
  show ?case by (simp add: option.map_ident)
next
  case (Cons b bs)
  then show ?case
    by (simp add: percent_decode_octet option.map_comp comp_def)
qed

lemma utf8_octets_bytes:
  assumes "cp < 0x110000"
  shows "\<forall>b\<in>set (utf8_octets cp). b < 256"
proof -
  have two: "cp div 64 < 32" if "cp < 0x800"
    using that by (intro less_mult_imp_div_less) simp
  have three: "cp div 4096 < 16" if "cp < 0x10000"
    using that by (intro less_mult_imp_div_less) simp
  have four: "cp div 262144 < 5"
    using assms by (intro less_mult_imp_div_less) simp
  have low: "n mod 64 < 64" for n :: nat
    by simp
  show ?thesis
    using two three four low [of cp] low [of "cp div 64"] low [of "cp div 4096"]
    by (auto simp add: utf8_octets_def simp del: mod_less_divisor)
qed

lemma unreserved_facts:
  "\<forall>c\<in>set uri_unreserved_chars. (of_char c :: nat) < 128 \<and> c \<noteq> CHR ''%'' \<and> pchar_plain c
      \<and> c \<noteq> CHR ''/'' \<and> c \<noteq> CHR 0x3F \<and> c \<noteq> CHR 0x23"
  by (simp add: uri_unreserved_chars_def alphanumeric_def apostrophe_def pchar_plain_def)


lemma find_unreserved:
  assumes "find (\<lambda>c. of_char c = cp) uri_unreserved_chars = Some c"
  shows "c \<in> set uri_unreserved_chars" "(of_char c :: nat) = cp"
  using assms by (auto simp add: find_Some_iff)

lemma encode_code_point_decode:
  assumes "cp < 0x110000"
  shows "percent_decode (encode_code_point cp @ rest)
         = map_option ((@) (utf8_octets cp)) (percent_decode rest)"
proof (cases "find (\<lambda>c. of_char c = cp) uri_unreserved_chars")
  case None
  with assms show ?thesis
    by (simp add: encode_code_point_def percent_decode_octets utf8_octets_bytes)
next
  case (Some c)
  then have "c \<in> set uri_unreserved_chars" and code: "(of_char c :: nat) = cp"
    by (rule find_unreserved)+
  with unreserved_facts have "cp < 128" "c \<noteq> CHR ''%''"
    by auto
  moreover have "(@) [cp] = (#) cp"
    by (rule ext) simp
  ultimately show ?thesis
    using Some code by (simp add: encode_code_point_def utf8_octets_def)
qed

lemma segment_ok_octets:
  assumes "\<forall>b\<in>set bs. b < 256" and "segment_ok rest"
  shows "segment_ok (concat (map percent_encode_octet bs) @ rest)"
  using assms
  by (induction bs)
    (simp_all add: percent_encode_octet_def hex_upper_digit hex_upper_is_hex_digit octet_nibbles)

lemma encode_code_point_segment:
  assumes "cp < 0x110000" and "segment_ok rest"
  shows "segment_ok (encode_code_point cp @ rest)"
proof (cases "find (\<lambda>c. of_char c = cp) uri_unreserved_chars")
  case None
  with assms show ?thesis
    by (simp add: encode_code_point_def segment_ok_octets utf8_octets_bytes)
next
  case (Some c)
  then have "c \<in> set uri_unreserved_chars"
    by (rule find_unreserved)
  with unreserved_facts have "pchar_plain c" "c \<noteq> CHR ''%''"
    by auto
  with Some assms show ?thesis
    by (simp add: encode_code_point_def)
qed

lemma octets_chars:
  assumes "\<forall>b\<in>set bs. b < 256"
  shows "set (concat (map percent_encode_octet bs)) \<subseteq> insert (CHR ''%'') (set upper_hex_digits)"
  using assms
  by (induction bs) (simp_all add: percent_encode_octet_def hex_upper_digit octet_nibbles)

lemma encode_code_point_chars:
  assumes "cp < 0x110000"
  shows "set (encode_code_point cp)
         \<subseteq> set uri_unreserved_chars \<union> insert (CHR ''%'') (set upper_hex_digits)"
proof (cases "find (\<lambda>c. of_char c = cp) uri_unreserved_chars")
  case None
  with assms octets_chars [of "utf8_octets cp"] show ?thesis
    by (auto simp add: encode_code_point_def utf8_octets_bytes)
next
  case (Some c)
  then have "c \<in> set uri_unreserved_chars"
    by (rule find_unreserved)
  with Some show ?thesis
    by (simp add: encode_code_point_def)
qed

lemma unit_below: "unat (u :: 16 word) < 65536"
  using unsigned_less [of u, where ?'a = nat] by simp

lemma code_points_bound:
  "code_points s = Some cps \<Longrightarrow> \<forall>cp\<in>set cps. cp < 0x110000"
proof (induction s arbitrary: cps rule: code_points.induct)
  case 1
  then show ?case by simp
next
  case (2 u us)
  show ?case
  proof (cases "high_surrogate (unat u)")
    case False
    with 2 unit_below [of u] show ?thesis
      by (auto split: if_splits)
  next
    case True
    with 2 obtain v vs rest where us: "us = v # vs" and low: "low_surrogate (unat v)"
      and rest: "code_points vs = Some rest"
      and cps: "cps = ((unat u - 0xD800) * 0x400 + (unat v - 0xDC00) + 0x10000) # rest"
      by (auto simp add: low_surrogate_def high_surrogate_def split: if_splits list.splits)
    from True have "unat u - 0xD800 \<le> 1023"
      unfolding high_surrogate_def by linarith
    then have "(unat u - 0xD800) * 0x400 \<le> 1023 * 0x400"
      by (rule mult_le_mono1)
    moreover from low have "unat v - 0xDC00 \<le> 1023"
      unfolding low_surrogate_def by linarith
    ultimately have "(unat u - 0xD800) * 0x400 + (unat v - 0xDC00) + 0x10000 < 0x110000"
      by linarith
    moreover from 2 True us low rest have "\<forall>cp\<in>set rest. cp < 0x110000"
      by (simp add: low_surrogate_def high_surrogate_def)
    ultimately show ?thesis
      using cps by simp
  qed
qed

lemma encoded_points:
  assumes "\<forall>cp\<in>set cps. cp < 0x110000"
  shows "segment_ok (concat (map encode_code_point cps))"
    and "percent_decode (concat (map encode_code_point cps)) = Some (concat (map utf8_octets cps))"
    and "set (concat (map encode_code_point cps))
         \<subseteq> set uri_unreserved_chars \<union> insert (CHR ''%'') (set upper_hex_digits)"
  using assms
proof (induction cps)
  case Nil
  {
    case 1 show ?case by simp
  next
    case 2 show ?case by simp
  next
    case 3 show ?case by simp
  }
next
  case (Cons cp cps)
  {
    case 1 with Cons(1) show ?case by (simp add: encode_code_point_segment)
  next
    case 2 with Cons(2) show ?case by (simp add: encode_code_point_decode)
  next
    case 3 with Cons(3) encode_code_point_chars [of cp] show ?case by auto
  }
qed


lemma encodeURIComponent_cases:
  "encodeURIComponent s = Inl e \<longleftrightarrow> utf8 s = None \<and> e = URIError"
  "encodeURIComponent s = Inr segment
     \<longleftrightarrow> (\<exists>cps. code_points s = Some cps \<and> segment = concat (map encode_code_point cps))"
  by (auto simp add: encodeURIComponent_def utf8_def split: option.splits)

lemma encode_examples:
  "encodeURIComponent (units_of ''a/b'') = Inr ''a%2Fb''"
  "encodeURIComponent [0xE9] = Inr ''%C3%A9''"
  "encodeURIComponent [0x20AC] = Inr ''%E2%82%AC''"
  "encodeURIComponent [0xD83D, 0xDE00] = Inr ''%F0%9F%98%80''"
  by (simp_all add: encodeURIComponent_def units_of_def low_surrogate_def high_surrogate_def
      encode_code_point_def uri_unreserved_chars_def alphanumeric_def apostrophe_def
      utf8_octets_def percent_encode_octet_def hex_upper_def upper_hex_digits_def)

lemma unpaired_surrogate: "encodeURIComponent [0xD800, 0x2F] = Inl URIError"
  by (simp add: encodeURIComponent_def low_surrogate_def high_surrogate_def)

lemma id_method_urls:
  assumes "encodeURIComponent ident = Inr segment"
  shows "map req_url (fst (getWorkflow c fetch ident)) = [baseUrl c @ ''/api/v1/workflows/'' @ segment]"
    "map req_url (fst (updateWorkflow c fetch ident d)) = [baseUrl c @ ''/api/v1/workflows/'' @ segment]"
    "map req_url (fst (deleteWorkflow c fetch ident)) = [baseUrl c @ ''/api/v1/workflows/'' @ segment]"
    "map req_url (fst (executeWorkflow c fetch ident d)) = [baseUrl c @ ''/api/v1/workflows/'' @ segment @ ''/execute'']"
    "map req_url (fst (getExecution c fetch ident)) = [baseUrl c @ ''/api/v1/executions/'' @ segment]"
    "map req_url (fst (stopExecution c fetch ident)) = [baseUrl c @ ''/api/v1/executions/'' @ segment]"
    "map req_url (fst (getCredential c fetch ident)) = [baseUrl c @ ''/api/v1/credentials/'' @ segment]"
    "map req_url (fst (updateCredential c fetch ident d)) = [baseUrl c @ ''/api/v1/credentials/'' @ segment]"
    "map req_url (fst (deleteCredential c fetch ident)) = [baseUrl c @ ''/api/v1/credentials/'' @ segment]"
    "map req_url (fst (getVariable c fetch ident)) = [baseUrl c @ ''/api/v1/variables/'' @ segment]"
    "map req_url (fst (updateVariable c fetch ident d)) = [baseUrl c @ ''/api/v1/variables/'' @ segment]"
    "map req_url (fst (deleteVariable c fetch ident)) = [baseUrl c @ ''/api/v1/variables/'' @ segment]"
  using assms
  by (simp_all add: getWorkflow_def updateWorkflow_def deleteWorkflow_def executeWorkflow_def getExecution_def stopExecution_def getCredential_def updateCredential_def deleteCredential_def getVariable_def updateVariable_def deleteVariable_def Let_def
      request_issues fetch_args_def request_url_def)

lemma id_method_throws:
  assumes "encodeURIComponent ident = Inl e"
  shows "getWorkflow c fetch ident = ([], Inl e)"
    "updateWorkflow c fetch ident d = ([], Inl e)"
    "deleteWorkflow c fetch ident = ([], Inl e)"
    "executeWorkflow c fetch ident d = ([], Inl e)"
    "getExecution c fetch ident = ([], Inl e)"
    "stopExecution c fetch ident = ([], Inl e)"
    "getCredential c fetch ident = ([], Inl e)"
    "updateCredential c fetch ident d = ([], Inl e)"
    "deleteCredential c fetch ident = ([], Inl e)"
    "getVariable c fetch ident = ([], Inl e)"
    "updateVariable c fetch ident d = ([], Inl e)"
    "deleteVariable c fetch ident = ([], Inl e)"
  using assms
  by (simp_all add: getWorkflow_def updateWorkflow_def deleteWorkflow_def executeWorkflow_def getExecution_def stopExecution_def getCredential_def updateCredential_def deleteCredential_def getVariable_def updateVariable_def deleteVariable_def)

text \<open>
  C8, as amended. For every identifier that has a UTF-8 form (no unpaired surrogate),
  reserved characters included, \<open>encodeURIComponent\<close> gives one segment that is well
  formed, holds no slash, question mark or number sign, and percent-decodes to the UTF-8
  form of the identifier; each method that takes an identifier fetches the base URL, its
  path prefix and that segment (followed by \<open>/execute\<close> for \<open>executeWorkflow\<close>). On
  an identifier with an unpaired surrogate \<open>encodeURIComponent\<close> throws a URIError and
  each of these methods throws it with no request issued. The identifier \<open>a/b\<close> given
  to \<open>getWorkflow\<close> requests \<open>/api/v1/workflows/a%2Fb\<close>; a code point of two, of
  three and of four octets is written octet by octet.
\<close>

theorem identifier_paths_percent_encoded:
  "(\<forall>octets. utf8 ident = Some octets \<longrightarrow>
      (\<exists>segment. encodeURIComponent ident = Inr segment
          \<and> segment_ok segment
          \<and> CHR ''/'' \<notin> set segment \<and> CHR 0x3F \<notin> set segment \<and> CHR 0x23 \<notin> set segment
          \<and> percent_decode segment = Some octets
          \<and> map req_url (fst (getWorkflow c fetch ident))
              = [baseUrl c @ ''/api/v1/workflows/'' @ segment]
          \<and> map req_url (fst (updateWorkflow c fetch ident d))
              = [baseUrl c @ ''/api/v1/workflows/'' @ segment]
          \<and> map req_url (fst (deleteWorkflow c fetch ident))
              = [baseUrl c @ ''/api/v1/workflows/'' @ segment]
          \<and> map req_url (fst (executeWorkflow c fetch ident d))
              = [baseUrl c @ ''/api/v1/workflows/'' @ segment @ ''/execute'']
          \<and> map req_url (fst (getExecution c fetch ident))
              = [baseUrl c @ ''/api/v1/executions/'' @ segment]
          \<and> map req_url (fst (stopExecution c fetch ident))
              = [baseUrl c @ ''/api/v1/executions/'' @ segment]
          \<and> map req_url (fst (getCredential c fetch ident))
              = [baseUrl c @ ''/api/v1/credentials/'' @ segment]
          \<and> map req_url (fst (updateCredential c fetch ident d))
              = [baseUrl c @ ''/api/v1/credentials/'' @ segment]
          \<and> map req_url (fst (deleteCredential c fetch ident))
              = [baseUrl c @ ''/api/v1/credentials/'' @ segment]
          \<and> map req_url (fst (getVariable c fetch ident))
              = [baseUrl c @ ''/api/v1/variables/'' @ segment]
          \<and> map req_url (fst (updateVariable c fetch ident d))
              = [baseUrl c @ ''/api/v1/variables/'' @ segment]
          \<and> map req_url (fst (deleteVariable c fetch ident))
              = [baseUrl c @ ''/api/v1/variables/'' @ segment]))
   \<and> (utf8 ident = None \<longrightarrow>
          encodeURIComponent ident = Inl URIError
          \<and> getWorkflow c fetch ident = ([], Inl URIError)
          \<and> updateWorkflow c fetch ident d = ([], Inl URIError)
          \<and> deleteWorkflow c fetch ident = ([], Inl URIError)
          \<and> executeWorkflow c fetch ident d = ([], Inl URIError)
          \<and> getExecution c fetch ident = ([], Inl URIError)
          \<and> stopExecution c fetch ident = ([], Inl URIError)
          \<and> getCredential c fetch ident = ([], Inl URIError)
          \<and> updateCredential c fetch ident d = ([], Inl URIError)
          \<and> deleteCredential c fetch ident = ([], Inl URIError)
          \<and> getVariable c fetch ident = ([], Inl URIError)
          \<and> updateVariable c fetch ident d = ([], Inl URIError)
          \<and> deleteVariable c fetch ident = ([], Inl URIError))
   \<and> map req_url (fst (getWorkflow c fetch (units_of ''a/b''))) = [baseUrl c @ ''/api/v1/workflows/a%2Fb'']
   \<and> encodeURIComponent [0xE9] = Inr ''%C3%A9''
   \<and> encodeURIComponent [0x20AC] = Inr ''%E2%82%AC''
   \<and> encodeURIComponent [0xD83D, 0xDE00] = Inr ''%F0%9F%98%80''"
proof (intro conjI allI impI)
  fix octets
  assume "utf8 ident = Some octets"
  then obtain cps where cps: "code_points ident = Some cps"
    and octets: "octets = concat (map utf8_octets cps)"
    by (auto simp add: utf8_def)
  let ?segment = "concat (map encode_code_point cps)"
  from cps have bound: "\<forall>cp\<in>set cps. cp < 0x110000"
    by (rule code_points_bound)
  have enc: "encodeURIComponent ident = Inr ?segment"
    using cps by (simp add: encodeURIComponent_def)
  have ok: "segment_ok ?segment"
    using bound by (rule encoded_points)
  have dec: "percent_decode ?segment = Some octets"
    using encoded_points(2) [OF bound] octets by simp
  have "set ?segment \<subseteq> set uri_unreserved_chars \<union> insert (CHR ''%'') (set upper_hex_digits)"
    using bound by (rule encoded_points)
  moreover have "CHR ''/'' \<notin> set uri_unreserved_chars \<union> insert (CHR ''%'') (set upper_hex_digits)"
    "CHR 0x3F \<notin> set uri_unreserved_chars \<union> insert (CHR ''%'') (set upper_hex_digits)"
    "CHR 0x23 \<notin> set uri_unreserved_chars \<union> insert (CHR ''%'') (set upper_hex_digits)"
    by (simp_all add: uri_unreserved_chars_def alphanumeric_def apostrophe_def upper_hex_digits_def)
  ultimately have delim: "CHR ''/'' \<notin> set ?segment" "CHR 0x3F \<notin> set ?segment"
    "CHR 0x23 \<notin> set ?segment"
    by blast+
  show "\<exists>segment. encodeURIComponent ident = Inr segment
          \<and> segment_ok segment
          \<and> CHR ''/'' \<notin> set segment \<and> CHR 0x3F \<notin> set segment \<and> CHR 0x23 \<notin> set segment
          \<and> percent_decode segment = Some octets
          \<and> map req_url (fst (getWorkflow c fetch ident))
              = [baseUrl c @ ''/api/v1/workflows/'' @ segment]
          \<and> map req_url (fst (updateWorkflow c fetch ident d))
              = [baseUrl c @ ''/api/v1/workflows/'' @ segment]
          \<and> map req_url (fst (deleteWorkflow c fetch ident))
              = [baseUrl c @ ''/api/v1/workflows/'' @ segment]
          \<and> map req_url (fst (executeWorkflow c fetch ident d))
              = [baseUrl c @ ''/api/v1/workflows/'' @ segment @ ''/execute'']
          \<and> map req_url (fst (getExecution c fetch ident))
              = [baseUrl c @ ''/api/v1/executions/'' @ segment]
          \<and> map req_url (fst (stopExecution c fetch ident))
              = [baseUrl c @ ''/api/v1/executions/'' @ segment]
          \<and> map req_url (fst (getCredential c fetch ident))
              = [baseUrl c @ ''/api/v1/credentials/'' @ segment]
          \<and> map req_url (fst (updateCredential c fetch ident d))
              = [baseUrl c @ ''/api/v1/credentials/'' @ segment]
          \<and> map req_url (fst (deleteCredential c fetch ident))
              = [baseUrl c @ ''/api/v1/credentials/'' @ segment]
          \<and> map req_url (fst (getVariable c fetch ident))
              = [baseUrl c @ ''/api/v1/variables/'' @ segment]
          \<and> map req_url (fst (updateVariable c fetch ident d))
              = [baseUrl c @ ''/api/v1/variables/'' @ segment]
          \<and> map req_url (fst (deleteVariable c fetch ident))
              = [baseUrl c @ ''/api/v1/variables/'' @ segment]"
    by (intro exI [of _ ?segment] conjI)
      (simp_all only: enc ok dec delim id_method_urls [OF enc] simp_thms)
next
  assume none: "utf8 ident = None"
  then show "encodeURIComponent ident = Inl URIError"
    by (simp add: encodeURIComponent_cases)
  then show "getWorkflow c fetch ident = ([], Inl URIError)"
    "updateWorkflow c fetch ident d = ([], Inl URIError)"
    "deleteWorkflow c fetch ident = ([], Inl URIError)"
    "executeWorkflow c fetch ident d = ([], Inl URIError)"
    "getExecution c fetch ident = ([], Inl URIError)"
    "stopExecution c fetch ident = ([], Inl URIError)"
    "getCredential c fetch ident = ([], Inl URIError)"
    "updateCredential c fetch ident d = ([], Inl URIError)"
    "deleteCredential c fetch ident = ([], Inl URIError)"
    "getVariable c fetch ident = ([], Inl URIError)"
    "updateVariable c fetch ident d = ([], Inl URIError)"
    "deleteVariable c fetch ident = ([], Inl URIError)"
    by (rule id_method_throws)+
next
  show "map req_url (fst (getWorkflow c fetch (units_of ''a/b''))) = [baseUrl c @ ''/api/v1/workflows/a%2Fb'']"
    by (simp add: getWorkflow_def encode_examples request_issues fetch_args_def request_url_def)
qed (rule encode_examples)+

text \<open>
  C8 as stated, for every identifier with a reserved character, fails: the identifier of
  the two code units \<open>0xD800\<close> (a high surrogate without its partner) and \<open>/\<close> makes
  \<open>getWorkflow\<close> throw a URIError; no path is built and no request is issued.
\<close>

theorem unpaired_surrogate_no_path:
  "getWorkflow sample_client (fetch_responds (json_response JNull)) [0xD800, 0x2F]
   = ([], Inl (JError ''URIError'' ''URI malformed''))"
  by (simp add: getWorkflow_def unpaired_surrogate URIError_def)

text \<open>The identifier \<open>a/b\<close>, and the identifier with the unpaired surrogate.\<close>

theorem identifier_paths_percent_encoded_witness:
  "utf8 (units_of ''a/b'') = Some [97, 47, 98]
   \<and> encodeURIComponent (units_of ''a/b'') = Inr ''a%2Fb''
   \<and> segment_ok ''a%2Fb''
   \<and> percent_decode ''a%2Fb'' = Some [97, 47, 98]
   \<and> map req_url (fst (deleteWorkflow sample_client (fetch_rejects JNull) (units_of ''a/b'')))
       = [''http://x/api/v1/workflows/a%2Fb'']
   \<and> utf8 [0xD800, 0x2F] = None
   \<and> updateWorkflow sample_client (fetch_rejects JNull) [0xD800, 0x2F] JNull = ([], Inl URIError)"
proof -
  have form: "utf8 (units_of ''a/b'') = Some [97, 47, 98]"
    by (simp add: utf8_def units_of_def low_surrogate_def high_surrogate_def utf8_octets_def)
  have none: "utf8 [0xD800, 0x2F] = None"
    by (simp add: utf8_def low_surrogate_def high_surrogate_def)
  have enc: "encodeURIComponent (units_of ''a/b'') = Inr ''a%2Fb''"
    by (rule encode_examples)
  have base: "baseUrl sample_client = ''http://x''"
    by (simp add: sample_client_def N8nClient_def)
  note encoded = identifier_paths_percent_encoded
    [of "units_of ''a/b''" sample_client "fetch_rejects JNull" JNull,
      THEN conjunct1, THEN spec, THEN mp, OF form]
  have ok: "segment_ok ''a%2Fb''" and dec: "percent_decode ''a%2Fb'' = Some [97, 47, 98]"
    and url: "map req_url (fst (deleteWorkflow sample_client (fetch_rejects JNull) (units_of ''a/b'')))
              = [''http://x/api/v1/workflows/a%2Fb'']"
    using encoded unfolding enc base by (elim exE conjE, simp)+
  note thrown = identifier_paths_percent_encoded
    [of "[0xD800, 0x2F]" sample_client "fetch_rejects JNull" JNull,
      THEN conjunct2, THEN conjunct1, THEN mp, OF none]
  have "updateWorkflow sample_client (fetch_rejects JNull) [0xD800, 0x2F] JNull = ([], Inl URIError)"
    using thrown by (elim conjE)
  with form enc ok dec url none show ?thesis
    by simp
qed

section \<open>Activation\<close>

lemma with_body_fields:
  "init_method (with_body m b) = Some m" "init_headers (with_body m b) = None"
  "init_body (with_body m b) = b"
  by (simp_all add: with_body_def)

text \<open>
  C9. \<open>activateWorkflow(id)\<close> is \<open>updateWorkflow(id, {active: true})\<close>: the same
  requests issued and the same outcome, for every client, server and identifier. The
  one request is a PATCH of \<open>/api/v1/workflows/\<close> and the encoded identifier, with the
  default headers and the body \<open>{"active":true}\<close>; on an identifier that cannot be
  encoded both throw the same URIError and issue nothing. Likewise
  \<open>deactivateWorkflow(id)\<close> is \<open>updateWorkflow(id, {active: false})\<close>, with the body
  \<open>{"active":false}\<close>.
\<close>

theorem activate_is_update:
  "activateWorkflow c fetch ident = updateWorkflow c fetch ident (JObj [(''active'', JBool True)])
   \<and> deactivateWorkflow c fetch ident = updateWorkflow c fetch ident (JObj [(''active'', JBool False)])
   \<and> fst (activateWorkflow c fetch ident) =
       (case encodeURIComponent ident of
          Inl e \<Rightarrow> []
        | Inr segment \<Rightarrow>
            [\<lparr>req_url = baseUrl c @ ''/api/v1/workflows/'' @ segment,
              req_method = Some ''PATCH'',
              req_headers = [(''Content-Type'', ''application/json''), (''Accept'', ''application/json''),
                             (''X-N8N-API-KEY'', apiKey c)],
              req_body = Some (''{'' @ [CHR 0x22] @ ''active'' @ [CHR 0x22] @ '':true}'')\<rparr>])
   \<and> fst (deactivateWorkflow c fetch ident) =
       (case encodeURIComponent ident of
          Inl e \<Rightarrow> []
        | Inr segment \<Rightarrow>
            [\<lparr>req_url = baseUrl c @ ''/api/v1/workflows/'' @ segment,
              req_method = Some ''PATCH'',
              req_headers = [(''Content-Type'', ''application/json''), (''Accept'', ''application/json''),
                             (''X-N8N-API-KEY'', apiKey c)],
              req_body = Some (''{'' @ [CHR 0x22] @ ''active'' @ [CHR 0x22] @ '':false}'')\<rparr>])
   \<and> fst (activateWorkflow c fetch (units_of ''a/b'')) =
       [\<lparr>req_url = baseUrl c @ ''/api/v1/workflows/a%2Fb'',
         req_method = Some ''PATCH'',
         req_headers = [(''Content-Type'', ''application/json''), (''Accept'', ''application/json''),
                        (''X-N8N-API-KEY'', apiKey c)],
         req_body = Some (''{'' @ [CHR 0x22] @ ''active'' @ [CHR 0x22] @ '':true}'')\<rparr>]"
  by (simp add: activateWorkflow_def deactivateWorkflow_def updateWorkflow_def request_issues
      fetch_args_def request_url_def request_headers_def spread_def with_body_fields
      json_quote_def json_quote_char_def encode_examples split: sum.splits)

section \<open>Responses\<close>

lemma get_prop_defined:
  "t \<noteq> JNull \<Longrightarrow> t \<noteq> JUndefined \<Longrightarrow> \<exists>v. get_prop t k = Inr v"
  by (cases t) simp_all

lemma listWorkflows_outcome:
  "snd (listWorkflows c fetch)
   = (case fetch (fetch_args c ''/api/v1/workflows'' no_options) of
        Inl e \<Rightarrow> Inl e | Inr r \<Rightarrow> handle_response r)"
  by (simp add: listWorkflows_def request_outcome)

lemma handle_json_response:
  "handle_response (json_response v)
   = (case get_prop v ''data'' of Inl e \<Rightarrow> Inl e | Inr d \<Rightarrow> Inr (js_or d v))"
  by (simp add: handle_response_def json_response_def resp_ok_def)

lemma text_plain_not_json: "\<not> sublist ''application/json'' ''text/plain''"
  by (simp add: sublist_code)

lemma handle_text_response_ok:
  "handle_response (text_response 200 reason body) = Inr (JStr body)"
  by (simp add: handle_response_def text_response_def resp_ok_def text_plain_not_json)

text \<open>The body \<open>{"data": [1,2,3]}\<close> yields \<open>[1,2,3]\<close>, and the body \<open>{"id": 5}\<close>
  yields itself.\<close>

lemma envelope_examples:
  "snd (request c (fetch_responds (json_response (JObj [(''data'', JArr [JNum (Pos 1), JNum (Pos 2), JNum (Pos 3)])])))
        path options) = Inr (JArr [JNum (Pos 1), JNum (Pos 2), JNum (Pos 3)])"
  "snd (request c (fetch_responds (json_response (JObj [(''id'', JNum (Pos 5))]))) path options)
     = Inr (JObj [(''id'', JNum (Pos 5))])"
  by (simp_all add: request_outcome fetch_responds_def handle_json_response js_or_def)

text \<open>In general a JSON response yields its \<open>data\<close> when that is truthy, and the
  parsed body otherwise.\<close>

lemma truthy_data_unwrapped:
  assumes "fetch (fetch_args c path options) = Inr r" and "resp_ok r"
    and "resp_content_type r = Some h" and "sublist ''application/json'' h"
    and "resp_json r = Inr json" and "get_prop json ''data'' = Inr d"
  shows "snd (request c fetch path options) = Inr (if truthy d then d else json)"
  using assms by (auto simp add: request_outcome handle_response_def js_or_def)

text \<open>
  C1 (the code departs from it on falsy data). The request primitive returns
  \<open>json.data || json\<close>. For a 200 response of content type \<open>application/json\<close>
  whose body is \<open>{"data": 0}\<close>, \<open>{"data": ""}\<close> or \<open>{"data": false}\<close>, where
  \<open>data\<close> is present and neither \<open>null\<close> nor \<open>undefined\<close>, it returns the whole
  parsed body, envelope included, and not the value of \<open>data\<close>. On truthy data and on
  a body without \<open>data\<close> it does what C1 says, as the two lemmas above show.
\<close>

theorem falsy_data_not_unwrapped:
  "snd (request sample_client (fetch_responds (json_response (JObj [(''data'', JNum (Pos 0))])))
        ''/api/v1/workflows'' no_options) = Inr (JObj [(''data'', JNum (Pos 0))])
   \<and> snd (request sample_client (fetch_responds (json_response (JObj [(''data'', JStr [])])))
        ''/api/v1/workflows'' no_options) = Inr (JObj [(''data'', JStr [])])
   \<and> snd (request sample_client (fetch_responds (json_response (JObj [(''data'', JBool False)])))
        ''/api/v1/workflows'' no_options) = Inr (JObj [(''data'', JBool False)])"
  by (simp add: request_outcome fetch_responds_def handle_json_response js_or_def)

section \<open>Error responses\<close>

lemma handle_response_error:
  "\<not> resp_ok r \<Longrightarrow> handle_response r = Inl (JError ''Error'' (error_message r))"
  by (simp add: handle_response_def)

lemma error_message_parts:
  "sublist (string_of_nat (resp_status r)) (error_message r)"
  "sublist (resp_statusText r) (error_message r)"
  "resp_text r = Inr t \<Longrightarrow> sublist t (error_message r)"
proof -
  show "sublist (string_of_nat (resp_status r)) (error_message r)"
    unfolding error_message_def Let_def by (rule sublist_appendI)
  have "sublist (resp_statusText r)
         ((''n8n API error '' @ string_of_nat (resp_status r) @ '' '') @ resp_statusText r @
          ('': '' @ (case resp_text r of Inl e \<Rightarrow> [] | Inr t \<Rightarrow> t)))"
    by (rule sublist_appendI)
  then show "sublist (resp_statusText r) (error_message r)"
    by (simp add: error_message_def)
  show "sublist t (error_message r)" if "resp_text r = Inr t"
  proof -
    have "sublist t ((''n8n API error '' @ string_of_nat (resp_status r) @ '' '' @ resp_statusText r @ '': '') @ t)"
      by (rule sublist_append_leftI)
    with that show ?thesis by (simp add: error_message_def)
  qed
qed

text \<open>
  C2. When the response that \<open>fetch\<close> delivers has a status outside 200 to 299, the
  call fails with an \<open>Error\<close> whose message is \<open>n8n API error\<close>, the decimal status
  code, the status text, a colon and the body text as it was read; so the message contains
  the status code, the status text and the body text. When reading the body fails, the
  body text is the empty string and the call still fails with that same \<open>Error\<close>, not
  with the failure of the read.
\<close>

theorem error_response_fails:
  assumes "fetch (fetch_args c path options) = Inr r" and "\<not> resp_ok r"
  shows "snd (request c fetch path options) = Inl (JError ''Error'' (error_message r))
    \<and> error_message r = ''n8n API error '' @ string_of_nat (resp_status r) @ '' '' @ resp_statusText r
          @ '': '' @ (case resp_text r of Inl e \<Rightarrow> [] | Inr t \<Rightarrow> t)
    \<and> sublist (string_of_nat (resp_status r)) (error_message r)
    \<and> sublist (resp_statusText r) (error_message r)
    \<and> (\<forall>t. resp_text r = Inr t \<longrightarrow> sublist t (error_message r))"
  using assms
  by (simp add: request_outcome handle_response_error error_message_parts)
    (simp add: error_message_def)

lemma string_of_nat_404: "string_of_nat 404 = ''404''"
  by (simp add: string_of_nat.simps digit_char_def)

lemma string_of_nat_500: "string_of_nat 500 = ''500''"
  by (simp add: string_of_nat.simps digit_char_def)

text \<open>A 404 with the body \<open>not found\<close>, and a 500 whose body cannot be read.\<close>

theorem error_response_fails_witness:
  "\<not> resp_ok (text_response 404 ''Not Found'' ''not found'')
   \<and> snd (request sample_client (fetch_responds (text_response 404 ''Not Found'' ''not found''))
        ''/api/v1/workflows'' no_options)
      = Inl (JError ''Error'' ''n8n API error 404 Not Found: not found'')
   \<and> sublist ''404'' ''n8n API error 404 Not Found: not found''
   \<and> sublist ''Not Found'' ''n8n API error 404 Not Found: not found''
   \<and> sublist ''not found'' ''n8n API error 404 Not Found: not found''
   \<and> \<not> resp_ok (unreadable_response 500 ''Internal Server Error'')
   \<and> snd (request sample_client (fetch_responds (unreadable_response 500 ''Internal Server Error''))
        ''/api/v1/workflows'' no_options)
      = Inl (JError ''Error'' ''n8n API error 500 Internal Server Error: '')"
proof -
  let ?r = "text_response 404 ''Not Found'' ''not found''"
  let ?u = "unreadable_response 500 ''Internal Server Error''"
  have sent: "fetch_responds ?r (fetch_args sample_client ''/api/v1/workflows'' no_options) = Inr ?r"
    by (simp add: fetch_responds_def)
  have bad: "\<not> resp_ok ?r"
    by (simp add: resp_ok_def text_response_def)
  have msg: "error_message ?r = ''n8n API error 404 Not Found: not found''"
    by (simp add: error_message_def text_response_def string_of_nat_404)
  have fields: "resp_status ?r = 404" "resp_statusText ?r = ''Not Found''"
    "resp_text ?r = Inr ''not found''"
    by (simp_all add: text_response_def)
  have sent': "fetch_responds ?u (fetch_args sample_client ''/api/v1/workflows'' no_options) = Inr ?u"
    by (simp add: fetch_responds_def)
  have bad': "\<not> resp_ok ?u"
    by (simp add: resp_ok_def unreadable_response_def)
  have msg': "error_message ?u = ''n8n API error 500 Internal Server Error: ''"
    by (simp add: error_message_def unreadable_response_def string_of_nat_500)
  have found: "snd (request sample_client (fetch_responds ?r) ''/api/v1/workflows'' no_options)
      = Inl (JError ''Error'' ''n8n API error 404 Not Found: not found'')
    \<and> sublist ''404'' ''n8n API error 404 Not Found: not found''
    \<and> sublist ''Not Found'' ''n8n API error 404 Not Found: not found''
    \<and> sublist ''not found'' ''n8n API error 404 Not Found: not found''"
    using error_response_fails [of "fetch_responds ?r" sample_client "''/api/v1/workflows''"
        no_options ?r, OF sent bad]
    unfolding msg fields string_of_nat_404 by simp
  have unread: "snd (request sample_client (fetch_responds ?u) ''/api/v1/workflows'' no_options)
      = Inl (JError ''Error'' ''n8n API error 500 Internal Server Error: '')"
    using error_response_fails [of "fetch_responds ?u" sample_client "''/api/v1/workflows''"
        no_options ?u, OF sent' bad']
    unfolding msg' by simp
  from found unread bad bad' show ?thesis
    by simp
qed

section \<open>The diagnostic helpers\<close>

text \<open>
  C5. \<open>testConnection\<close> returns \<open>false\<close> whenever the underlying \<open>listWorkflows\<close>
  call fails, whatever was thrown, and \<open>true\<close> whenever it succeeds, whatever the
  payload; it never throws, and it issues the request \<open>listWorkflows\<close> issues.
\<close>

theorem testConnection_never_throws:
  "(\<forall>e. snd (listWorkflows c fetch) = Inl e \<longrightarrow> snd (testConnection c fetch) = Inr False)
   \<and> (\<forall>v. snd (listWorkflows c fetch) = Inr v \<longrightarrow> snd (testConnection c fetch) = Inr True)
   \<and> \<not> isl (snd (testConnection c fetch))
   \<and> fst (testConnection c fetch) = fst (listWorkflows c fetch)"
  by (cases "listWorkflows c fetch") (auto simp add: testConnection_def split: sum.splits)

theorem testConnection_never_throws_witness:
  "snd (listWorkflows sample_client (fetch_rejects (JError ''TypeError'' ''fetch failed'')))
     = Inl (JError ''TypeError'' ''fetch failed'')
   \<and> snd (testConnection sample_client (fetch_rejects (JError ''TypeError'' ''fetch failed''))) = Inr False
   \<and> snd (listWorkflows sample_client (fetch_responds (text_response 200 ''OK'' ''hello'')))
     = Inr (JStr ''hello'')
   \<and> snd (testConnection sample_client (fetch_responds (text_response 200 ''OK'' ''hello''))) = Inr True"
proof -
  have fails: "snd (listWorkflows sample_client (fetch_rejects (JError ''TypeError'' ''fetch failed'')))
     = Inl (JError ''TypeError'' ''fetch failed'')"
    by (simp add: listWorkflows_outcome fetch_rejects_def)
  have succeeds: "snd (listWorkflows sample_client (fetch_responds (text_response 200 ''OK'' ''hello'')))
     = Inr (JStr ''hello'')"
    by (simp add: listWorkflows_outcome fetch_responds_def handle_text_response_ok)
  from fails succeeds
    testConnection_never_throws [of sample_client "fetch_rejects (JError ''TypeError'' ''fetch failed'')"]
    testConnection_never_throws [of sample_client "fetch_responds (text_response 200 ''OK'' ''hello'')"]
  show ?thesis by simp
qed

lemma selfTest_outcome:
  "snd (selfTest c fetch)
   = (case snd (listWorkflows c fetch) of
        Inr workflows \<Rightarrow>
          Inr \<lparr>status = ''ok'', message = JStr ''Connection successful'',
               details = WorkflowCount (case workflows of JArr xs \<Rightarrow> length xs | _ \<Rightarrow> 0)\<rparr>
      | Inl error \<Rightarrow>
          (case get_prop error ''message'' of
             Inl e \<Rightarrow> Inl e
           | Inr m \<Rightarrow>
               (case js_String error of
                  Inl e \<Rightarrow> Inl e
                | Inr s \<Rightarrow> Inr \<lparr>status = ''error'',
                                 message = js_or m (JStr ''Connection failed''),
                                 details = ErrorText s\<rparr>)))"
  by (cases "listWorkflows c fetch") (simp add: selfTest_def split: sum.splits)

lemma error_string_has_message:
  "js_String (JError n m) = Inr s \<Longrightarrow> sublist m s"
proof -
  have "sublist m ((n @ '': '') @ m)"
    by (rule sublist_append_leftI)
  then show "js_String (JError n m) = Inr s \<Longrightarrow> sublist m s"
    by (auto split: if_splits)
qed

text \<open>
  What \<open>selfTest\<close> does report. For every value thrown by the list call on which
  reading \<open>message\<close> and \<open>String\<close> themselves succeed (every Error object and every
  primitive other than \<open>null\<close> and \<open>undefined\<close>) it returns the status \<open>error\<close>, as
  message the failure's \<open>message\<close> property when that is truthy and
  \<open>Connection failed\<close> otherwise, and as details the string form of the failure, which
  for an Error object contains its message. On success it returns the status \<open>ok\<close>
  with the workflow count: the length of the response when it is an array (so 0 for the
  empty array), and 0 when it is not an array.
\<close>

lemma selfTest_reports:
  "(\<forall>e s. snd (listWorkflows c fetch) = Inl e \<and> e \<noteq> JUndefined \<and> e \<noteq> JNull \<and> js_String e = Inr s
       \<longrightarrow> (\<exists>m. get_prop e ''message'' = Inr m
              \<and> snd (selfTest c fetch)
                  = Inr \<lparr>status = ''error'',
                         message = (if truthy m then m else JStr ''Connection failed''),
                         details = ErrorText s\<rparr>))
   \<and> (\<forall>n m. snd (listWorkflows c fetch) = Inl (JError n m)
       \<longrightarrow> (\<exists>s. sublist m s
              \<and> snd (selfTest c fetch)
                  = Inr \<lparr>status = ''error'',
                         message = JStr (if m \<noteq> [] then m else ''Connection failed''),
                         details = ErrorText s\<rparr>))
   \<and> (\<forall>w. snd (listWorkflows c fetch) = Inr w
       \<longrightarrow> snd (selfTest c fetch)
            = Inr \<lparr>status = ''ok'', message = JStr ''Connection successful'',
                   details = WorkflowCount (case w of JArr xs \<Rightarrow> length xs | _ \<Rightarrow> 0)\<rparr>)
   \<and> (snd (listWorkflows c fetch) = Inr (JArr [])
       \<longrightarrow> snd (selfTest c fetch)
            = Inr \<lparr>status = ''ok'', message = JStr ''Connection successful'',
                   details = WorkflowCount 0\<rparr>)"
proof (intro conjI allI impI)
  fix e s
  assume h: "snd (listWorkflows c fetch) = Inl e \<and> e \<noteq> JUndefined \<and> e \<noteq> JNull \<and> js_String e = Inr s"
  then obtain m where "get_prop e ''message'' = Inr m"
    using get_prop_defined [of e "''message''"] by blast
  with h show "\<exists>m. get_prop e ''message'' = Inr m
     \<and> snd (selfTest c fetch)
         = Inr \<lparr>status = ''error'', message = (if truthy m then m else JStr ''Connection failed''),
                details = ErrorText s\<rparr>"
    by (simp add: selfTest_outcome js_or_def)
next
  fix n m
  assume h: "snd (listWorkflows c fetch) = Inl (JError n m)"
  obtain s where s: "js_String (JError n m) = Inr s"
    by simp
  then have "sublist m s"
    by (rule error_string_has_message)
  moreover from h s have "snd (selfTest c fetch)
       = Inr \<lparr>status = ''error'', message = JStr (if m \<noteq> [] then m else ''Connection failed''),
              details = ErrorText s\<rparr>"
    by (simp add: selfTest_outcome js_or_def del: js_String.simps)
  ultimately show "\<exists>s. sublist m s
     \<and> snd (selfTest c fetch)
         = Inr \<lparr>status = ''error'', message = JStr (if m \<noteq> [] then m else ''Connection failed''),
                details = ErrorText s\<rparr>"
    by blast
next
  fix w
  assume "snd (listWorkflows c fetch) = Inr w"
  then show "snd (selfTest c fetch)
       = Inr \<lparr>status = ''ok'', message = JStr ''Connection successful'',
              details = WorkflowCount (case w of JArr xs \<Rightarrow> length xs | _ \<Rightarrow> 0)\<rparr>"
    by (simp add: selfTest_outcome)
next
  assume "snd (listWorkflows c fetch) = Inr (JArr [])"
  then show "snd (selfTest c fetch)
       = Inr \<lparr>status = ''ok'', message = JStr ''Connection successful'',
              details = WorkflowCount 0\<rparr>"
    by (simp add: selfTest_outcome)
qed



text \<open>Examples of what it reports: a failed fetch, a thrown string, an empty list, an
  object that is not a list.\<close>

lemma selfTest_examples:
  "snd (listWorkflows sample_client (fetch_rejects (JError ''TypeError'' ''fetch failed'')))
     = Inl (JError ''TypeError'' ''fetch failed'')
   \<and> snd (selfTest sample_client (fetch_rejects (JError ''TypeError'' ''fetch failed'')))
     = Inr \<lparr>status = ''error'', message = JStr ''fetch failed'',
            details = ErrorText ''TypeError: fetch failed''\<rparr>
   \<and> snd (listWorkflows sample_client (fetch_rejects (JStr ''boom''))) = Inl (JStr ''boom'')
   \<and> snd (selfTest sample_client (fetch_rejects (JStr ''boom'')))
     = Inr \<lparr>status = ''error'', message = JStr ''Connection failed'', details = ErrorText ''boom''\<rparr>
   \<and> snd (listWorkflows sample_client (fetch_responds (json_response (JArr [])))) = Inr (JArr [])
   \<and> snd (selfTest sample_client (fetch_responds (json_response (JArr []))))
     = Inr \<lparr>status = ''ok'', message = JStr ''Connection successful'', details = WorkflowCount 0\<rparr>
   \<and> snd (listWorkflows sample_client (fetch_responds (json_response (JObj [(''id'', JNum (Pos 5))]))))
     = Inr (JObj [(''id'', JNum (Pos 5))])
   \<and> snd (selfTest sample_client (fetch_responds (json_response (JObj [(''id'', JNum (Pos 5))]))))
     = Inr \<lparr>status = ''ok'', message = JStr ''Connection successful'', details = WorkflowCount 0\<rparr>"
proof -
  let ?down = "fetch_rejects (JError ''TypeError'' ''fetch failed'')"
  let ?boom = "fetch_rejects (JStr ''boom'')"
  let ?empty = "fetch_responds (json_response (JArr []))"
  let ?single = "fetch_responds (json_response (JObj [(''id'', JNum (Pos 5))]))"
  have down: "snd (listWorkflows sample_client ?down) = Inl (JError ''TypeError'' ''fetch failed'')"
    by (simp add: listWorkflows_outcome fetch_rejects_def)
  have boom: "snd (listWorkflows sample_client ?boom) = Inl (JStr ''boom'')"
    by (simp add: listWorkflows_outcome fetch_rejects_def)
  have empty: "snd (listWorkflows sample_client ?empty) = Inr (JArr [])"
    by (simp add: listWorkflows_outcome fetch_responds_def handle_json_response js_or_def)
  have single: "snd (listWorkflows sample_client ?single) = Inr (JObj [(''id'', JNum (Pos 5))])"
    by (simp add: listWorkflows_outcome fetch_responds_def handle_json_response js_or_def)
  have "snd (selfTest sample_client ?down)
     = Inr \<lparr>status = ''error'', message = JStr ''fetch failed'',
            details = ErrorText ''TypeError: fetch failed''\<rparr>"
    using selfTest_reports [of sample_client ?down] down by simp
  moreover have "snd (selfTest sample_client ?boom)
     = Inr \<lparr>status = ''error'', message = JStr ''Connection failed'', details = ErrorText ''boom''\<rparr>"
    using selfTest_reports [of sample_client ?boom] boom by simp
  moreover have "snd (selfTest sample_client ?empty)
     = Inr \<lparr>status = ''ok'', message = JStr ''Connection successful'', details = WorkflowCount 0\<rparr>"
    using selfTest_reports [of sample_client ?empty] empty by simp
  moreover have "snd (selfTest sample_client ?single)
     = Inr \<lparr>status = ''ok'', message = JStr ''Connection successful'', details = WorkflowCount 0\<rparr>"
    using selfTest_reports [of sample_client ?single] single by simp
  ultimately show ?thesis
    using down boom empty single by simp
qed

section \<open>Looking up a node type\<close>

lemma find_by_name_find:
  assumes "\<forall>t\<in>set ts. t \<noteq> JNull \<and> t \<noteq> JUndefined"
  shows "find_by_name name ts
         = Inr (case find (\<lambda>t. get_prop t ''name'' = Inr (JStr name)) ts of
                  None \<Rightarrow> JUndefined | Some t \<Rightarrow> t)"
  using assms
proof (induction ts)
  case Nil
  show ?case by simp
next
  case (Cons t ts)
  then obtain v where "get_prop t ''name'' = Inr v"
    using get_prop_defined [of t "''name''"] by auto
  with Cons show ?case by simp
qed

lemma getNodeType_outcome:
  "snd (getNodeType c fetch name)
   = (case snd (request c fetch ''/api/v1/node-types'' no_options) of
        Inl e \<Rightarrow> Inl e | Inr types \<Rightarrow> types_find types name)"
  "fst (getNodeType c fetch name) = fst (request c fetch ''/api/v1/node-types'' no_options)"
  by (cases "request c fetch ''/api/v1/node-types'' no_options";
      simp add: getNodeType_def split: sum.splits)+

text \<open>
  C4. When the request for the node-type list succeeds with an array of node types (no
  element \<open>null\<close> or \<open>undefined\<close>), \<open>getNodeType(name)\<close> returns the element at the
  least index whose \<open>name\<close> property is the string \<open>name\<close>, character for character,
  and \<open>undefined\<close> when no element has that name; it issues the one request for
  \<open>/api/v1/node-types\<close>.
\<close>

theorem getNodeType_first_match:
  assumes "snd (request c fetch ''/api/v1/node-types'' no_options) = Inr (JArr ts)"
    and "\<forall>t\<in>set ts. t \<noteq> JNull \<and> t \<noteq> JUndefined"
  shows "(\<forall>i<length ts.
            get_prop (ts ! i) ''name'' = Inr (JStr name)
            \<and> (\<forall>j<i. get_prop (ts ! j) ''name'' \<noteq> Inr (JStr name))
            \<longrightarrow> snd (getNodeType c fetch name) = Inr (ts ! i))
     \<and> ((\<forall>t\<in>set ts. get_prop t ''name'' \<noteq> Inr (JStr name))
            \<longrightarrow> snd (getNodeType c fetch name) = Inr JUndefined)
     \<and> fst (getNodeType c fetch name) = [fetch_args c ''/api/v1/node-types'' no_options]"
proof -
  let ?P = "\<lambda>t. get_prop t ''name'' = Inr (JStr name)"
  have out: "snd (getNodeType c fetch name)
             = Inr (case find ?P ts of None \<Rightarrow> JUndefined | Some t \<Rightarrow> t)"
    using assms by (simp add: getNodeType_outcome find_by_name_find)
  have first: "snd (getNodeType c fetch name) = Inr (ts ! i)"
    if "i < length ts" "?P (ts ! i)" "\<forall>j<i. \<not> ?P (ts ! j)" for i
  proof -
    from that have "find ?P ts = Some (ts ! i)"
      unfolding find_Some_iff by blast
    with out show ?thesis by simp
  qed
  have none: "snd (getNodeType c fetch name) = Inr JUndefined" if "\<forall>t\<in>set ts. \<not> ?P t"
  proof -
    from that have "find ?P ts = None"
      unfolding find_None_iff by blast
    with out show ?thesis by simp
  qed
  from first none show ?thesis
    by (simp add: getNodeType_outcome request_issues)
qed

theorem getNodeType_first_match_witness:
  "snd (request sample_client (fetch_responds (json_response (JObj [(''data'', JArr sample_types)])))
        ''/api/v1/node-types'' no_options) = Inr (JArr sample_types)
   \<and> list_all (\<lambda>t. t \<noteq> JNull \<and> t \<noteq> JUndefined) sample_types
   \<and> snd (getNodeType sample_client
        (fetch_responds (json_response (JObj [(''data'', JArr sample_types)]))) ''b'')
      = Inr (JObj [(''name'', JStr ''b''), (''version'', JNum (Pos 1))])
   \<and> snd (getNodeType sample_client
        (fetch_responds (json_response (JObj [(''data'', JArr sample_types)]))) ''c'')
      = Inr JUndefined"
proof -
  let ?fetch = "fetch_responds (json_response (JObj [(''data'', JArr sample_types)]))"
  have listed: "snd (request sample_client ?fetch ''/api/v1/node-types'' no_options)
                = Inr (JArr sample_types)"
    by (simp add: request_outcome fetch_responds_def handle_json_response js_or_def)
  have objects: "\<forall>t\<in>set sample_types. t \<noteq> JNull \<and> t \<noteq> JUndefined"
    by (simp add: sample_types_def)
  have len: "(2::nat) < length sample_types"
    by (simp add: sample_types_def)
  have second: "get_prop (sample_types ! 2) ''name'' = Inr (JStr ''b'')
                \<and> (\<forall>j<2. get_prop (sample_types ! j) ''name'' \<noteq> Inr (JStr ''b''))"
    by (simp add: sample_types_def less_Suc_eq numeral_2_eq_2)
  have absent: "\<forall>t\<in>set sample_types. get_prop t ''name'' \<noteq> Inr (JStr ''c'')"
    by (simp add: sample_types_def)
  have b: "snd (getNodeType sample_client ?fetch ''b'') = Inr (sample_types ! 2)"
    using getNodeType_first_match [OF listed objects, of "''b''"] len second by blast
  have c: "snd (getNodeType sample_client ?fetch ''c'') = Inr JUndefined"
    using getNodeType_first_match [OF listed objects, of "''c''"] absent by blast
  have "sample_types ! 2 = JObj [(''name'', JStr ''b''), (''version'', JNum (Pos 1))]"
    by (simp add: sample_types_def)
  with listed objects b c show ?thesis
    by (simp add: list_all_iff)
qed

end
